theory Spec2Isabelle
  imports Complex_Main "HOL-Library.Sublist"
begin

section \<open>Utility functions of the Arch workbench (ArchCommands.py)\<close>

text \<open>
  The module is glue between a document-object graph and a geometry kernel. The
  document objects are modelled as records held in a store, indexed by object
  identifiers; an attribute that an object may lack (Python's \<^verbatim>\<open>hasattr\<close>) is an
  \<open>option\<close> field. Calls into the geometry kernel, the mesh library and the
  document API are parameters of the model: records of functions, one field per
  call the source makes. A kernel call whose exception the source catches, or that
  the source reaches only through such a handler, returns a sum, \<open>Inl\<close> being the
  exception, or an \<open>option\<close> when the handler catches the one exception the call is
  taken to raise; the other calls are taken to return. Floating-point numbers are real
  numbers.
\<close>

subsection \<open>Exceptions\<close>

datatype error =
    RuntimeError      \<comment> \<open>a bare \<^verbatim>\<open>raise\<close> with no active exception\<close>
  | ValueError        \<comment> \<open>\<^verbatim>\<open>list.remove(x)\<close> with x not in the list\<close>
  | IndexError        \<comment> \<open>\<^verbatim>\<open>xs[0]\<close> on an empty list\<close>
  | NameError         \<comment> \<open>a name that is not bound\<close>
  | AttributeError    \<comment> \<open>an attribute the object does not have\<close>
  | OCCError          \<comment> \<open>\<^verbatim>\<open>Part.OCCError\<close>, raised by the geometry kernel\<close>
  | OtherError

subsection \<open>Document objects\<close>

type_synonym oid = nat

text \<open>
  \<open>AttachmentSupport\<close> is an object, a tuple whose first item is an object, or a
  list of such tuples; the source only reads the object it starts with.
\<close>

datatype support = SupObj oid | SupTuple oid | SupList oid

record ('s, 'm) docobj =
  Name :: string
  Label :: string
  DraftType :: string                  \<comment> \<open>what \<^verbatim>\<open>Draft.getType(obj)\<close> returns\<close>
  TypeId :: "string option"
  Bases :: "string list"               \<comment> \<open>the types \<^verbatim>\<open>obj.isDerivedFrom\<close> accepts\<close>
  InList :: "oid list"
  Shape :: "'s option"
  Mesh :: "'m option"
  Hosts :: "oid list option"
  Host :: "oid option option"
  CloneOf :: "oid option option"
  BaseFeature :: "oid option"
  Additions :: "oid list"
  Subtractions :: "oid list"
  Axes :: "oid list option"
  Tool :: "oid option option"
  Base :: "oid option option"
  AttachmentSupport :: "support option option"
  Objects :: "oid list"
  Group :: "oid list"
  ShapeColor :: "(real \<times> real \<times> real \<times> real) option"
  Subcomponent :: bool

definition isDerivedFrom :: "('s, 'm) docobj \<Rightarrow> string \<Rightarrow> bool" where
  "isDerivedFrom obj t = (t \<in> set (Bases obj))"

text \<open>An object with no optional attribute, from which examples are built.\<close>

definition plain :: "string \<Rightarrow> string \<Rightarrow> ('s, 'm) docobj" where
  "plain n t = \<lparr> Name = n, Label = n, DraftType = t, TypeId = None, Bases = [],
     InList = [], Shape = None, Mesh = None, Hosts = None, Host = None,
     CloneOf = None, BaseFeature = None, Additions = [], Subtractions = [],
     Axes = None, Tool = None, Base = None, AttachmentSupport = None,
     Objects = [], Group = [], ShapeColor = None, Subcomponent = False \<rparr>"

subsection \<open>getStringList\<close>

text \<open>
  \<^verbatim>\<open>result = "["\<close>; for each object a comma is added when \<^verbatim>\<open>len(result) > 1\<close>,
  then the qualified name; \<^verbatim>\<open>"]"\<close> closes the string.
\<close>

fun getStringList_loop :: "string \<Rightarrow> ('s, 'm) docobj list \<Rightarrow> string" where
  "getStringList_loop result [] = result"
| "getStringList_loop result (ob # objects) =
     getStringList_loop
       ((if length result > 1 then result @ '','' else result)
          @ ''FreeCAD.ActiveDocument.'' @ Name ob)
       objects"

definition getStringList :: "('s, 'm) docobj list \<Rightarrow> string" where
  "getStringList objects = getStringList_loop ''['' objects @ '']''"

text \<open>The string the specification describes: the items separated by single commas.\<close>

fun comma_separated :: "string list \<Rightarrow> string" where
  "comma_separated [] = []"
| "comma_separated [x] = x"
| "comma_separated (x # y # ys) = x @ '','' @ comma_separated (y # ys)"

definition string_list_spec :: "string list \<Rightarrow> string" where
  "string_list_spec names =
     ''['' @ comma_separated (map (\<lambda>n. ''FreeCAD.ActiveDocument.'' @ n) names) @ '']''"

subsection \<open>pruneIncluded\<close>

type_synonym ('s, 'm) store = "oid \<Rightarrow> ('s, 'm) docobj"

text \<open>
  One pass of the body of \<^verbatim>\<open>for parent in obj.InList\<close>: the chain of tests on the
  parent, then the reprieve of strict mode. Objects are compared by identity.
\<close>

definition parent_step ::
  "('s, 'm) store \<Rightarrow> oid list \<Rightarrow> oid list \<Rightarrow> bool \<Rightarrow> oid \<Rightarrow> bool \<Rightarrow> oid \<Rightarrow> bool" where
  "parent_step st objectslist newlist strict obj toplevel parent =
     (let p = st parent;
          t1 =
            (if \<not> isDerivedFrom p ''Part::Feature'' then toplevel
             else if isDerivedFrom p ''Part::Part2DObject'' then toplevel
             else if DraftType p \<in> set [''BezCurve'', ''BSpline'', ''Clone'', ''Facebinder'',
                       ''Wire'', ''Project'', ''Roof'', ''Site'', ''Space'', ''Window'']
               then toplevel
             else if isDerivedFrom p ''PartDesign::FeatureBase'' then toplevel
             else if isDerivedFrom p ''PartDesign::Body'' \<and> Some obj = BaseFeature p
               then toplevel
             else if isDerivedFrom p ''PartDesign::SubShapeBinder''
                       \<or> TypeId p = Some ''PartDesign::ShapeBinder''
               then toplevel
             else if Host p = Some (Some obj) then toplevel
             else if (case Hosts p of None \<Rightarrow> False | Some hs \<Rightarrow> obj \<in> set hs) then toplevel
             else if TypeId p = Some ''Part::Mirroring'' then toplevel
             else (case CloneOf p of
                     Some (Some c) \<Rightarrow> (if Name (st c) \<noteq> Name (st obj) then False else toplevel)
                   | Some None \<Rightarrow> False
                   | None \<Rightarrow> False))
      in if t1 = False \<and> strict
         then (if parent \<notin> set objectslist \<and> parent \<notin> set newlist then True else t1)
         else t1)"

fun parents_loop ::
  "('s, 'm) store \<Rightarrow> oid list \<Rightarrow> oid list \<Rightarrow> bool \<Rightarrow> oid \<Rightarrow> bool \<Rightarrow> oid list \<Rightarrow> bool" where
  "parents_loop st objectslist newlist strict obj toplevel [] = toplevel"
| "parents_loop st objectslist newlist strict obj toplevel (parent # parents) =
     parents_loop st objectslist newlist strict obj
       (parent_step st objectslist newlist strict obj toplevel parent) parents"

definition is_toplevel :: "('s, 'm) store \<Rightarrow> oid list \<Rightarrow> oid list \<Rightarrow> bool \<Rightarrow> oid \<Rightarrow> bool" where
  "is_toplevel st objectslist newlist strict obj =
     (if isDerivedFrom (st obj) ''Part::Feature'' then
        (if DraftType (st obj) \<notin> set [''Window'', ''Clone'', ''Pipe'', ''Rebar'', ''Roof'']
         then parents_loop st objectslist newlist strict obj True (InList (st obj))
         else True)
      else True)"

text \<open>
  The outer loop carries \<^verbatim>\<open>newlist\<close> and the warnings printed on the console.
\<close>

fun pruneIncluded_loop ::
  "('s, 'm) store \<Rightarrow> oid list \<Rightarrow> bool \<Rightarrow> bool \<Rightarrow> oid list \<times> string list \<Rightarrow> oid list
     \<Rightarrow> oid list \<times> string list" where
  "pruneIncluded_loop st objectslist strict silent (newlist, console) [] = (newlist, console)"
| "pruneIncluded_loop st objectslist strict silent (newlist, console) (obj # rest) =
     (if is_toplevel st objectslist newlist strict obj
      then pruneIncluded_loop st objectslist strict silent (newlist @ [obj], console) rest
      else if \<not> silent
      then pruneIncluded_loop st objectslist strict silent
             (newlist, console @ [''pruning '' @ Label (st obj) @ [CHR 0x0A]]) rest
      else pruneIncluded_loop st objectslist strict silent (newlist, console) rest)"

definition pruneIncluded :: "('s, 'm) store \<Rightarrow> oid list \<Rightarrow> bool \<Rightarrow> bool \<Rightarrow> oid list" where
  "pruneIncluded st objectslist strict silent =
     fst (pruneIncluded_loop st objectslist strict silent ([], []) objectslist)"

text \<open>
  The objects the specification says are always kept: those not derived from
  \<^verbatim>\<open>Part::Feature\<close>, and those of type Window, Clone, Pipe, Rebar or Roof.
\<close>

definition always_kept :: "('s, 'm) store \<Rightarrow> oid \<Rightarrow> bool" where
  "always_kept st obj =
     (\<not> isDerivedFrom (st obj) ''Part::Feature''
      \<or> DraftType (st obj) \<in> {''Window'', ''Clone'', ''Pipe'', ''Rebar'', ''Roof''})"

text \<open>
  A small document: a wall (0), a box that is a component of the wall (1), a window
  hosted by the wall (2) and a group (3), each of the last three with the wall as parent.
\<close>

definition prune_doc :: "(unit, unit) store" where
  "prune_doc i =
     (if i = 0 then (plain ''Wall'' ''Wall'') \<lparr> Bases := [''Part::Feature''] \<rparr>
      else if i = 1 then (plain ''Box'' ''Part'') \<lparr> Bases := [''Part::Feature''], InList := [0] \<rparr>
      else if i = 2 then (plain ''Window'' ''Window'')
             \<lparr> Bases := [''Part::Feature''], InList := [0], Hosts := Some [0] \<rparr>
      else (plain ''Group'' ''Group'')
             \<lparr> Bases := [''App::DocumentObjectGroup''], InList := [0] \<rparr>)"

subsection \<open>makeFace\<close>

type_synonym vector = "real \<times> real \<times> real"

text \<open>
  A wire, as far as \<^verbatim>\<open>makeFace\<close> looks at it: its vertexes, the diagonal length of
  its bounding box, and its orientation, which \<^verbatim>\<open>reverse()\<close> flips. \<open>wire_id\<close> stands
  for the identity of the Python object. Lengths are real numbers.
\<close>

record wire =
  wire_id :: nat
  Vertexes :: "vector list"
  DiagonalLength :: real
  Reversed :: bool

definition reverse :: "wire \<Rightarrow> wire" where
  "reverse w = w \<lparr> Reversed := \<not> Reversed w \<rparr>"

text \<open>
  \<^verbatim>\<open>for w in wires: w.reverse()\<close> reverses the wire objects in place: an object is
  reversed once for each of its entries in the list, and every entry of that object, in
  this list or another, shows the outcome.
\<close>

definition reverse_each :: "wire list \<Rightarrow> wire \<Rightarrow> wire" where
  "reverse_each wires w =
     (if odd (length (filter (\<lambda>h. wire_id h = wire_id w) wires)) then reverse w else w)"

text \<open>
  The calls into the \<^verbatim>\<open>Part\<close> module: \<^verbatim>\<open>Part.Face\<close> on a wire or a list of wires,
  \<^verbatim>\<open>shape.cut(other)\<close> and \<^verbatim>\<open>shape.Faces\<close>. \<^verbatim>\<open>Part.Face(w)\<close> is the call on the one-item
  list.
\<close>

record 's part_kernel =
  Part_Face :: "wire list \<Rightarrow> error + 's"
  cut :: "'s \<Rightarrow> 's \<Rightarrow> error + 's"
  Faces :: "'s \<Rightarrow> 's list"

text \<open>The argument of \<^verbatim>\<open>makeFace\<close> is a list of wires, or one wire that is not in a list.\<close>

datatype wires_arg = Single wire | Many "wire list"

text \<open>
  The scan for the exterior wire: \<^verbatim>\<open>ext = None; max_length = 0\<close>, and a wire replaces
  \<^verbatim>\<open>ext\<close> when its diagonal is strictly longer than \<^verbatim>\<open>max_length\<close>.
\<close>

fun find_ext :: "wire option \<times> real \<Rightarrow> wire list \<Rightarrow> wire option \<times> real" where
  "find_ext (ext, max_length) [] = (ext, max_length)"
| "find_ext (ext, max_length) (w # ws) =
     (if DiagonalLength w > max_length then find_ext (Some w, DiagonalLength w) ws
      else find_ext (ext, max_length) ws)"

text \<open>
  Every function of \<^verbatim>\<open>makeFace\<close> returns, with its result, the arguments of the
  \<^verbatim>\<open>Part.Face\<close> calls made so far, in order. Method 2 builds a face on each remaining
  wire and cuts it from \<^verbatim>\<open>mf\<close>.
\<close>

fun cut_holes ::
  "'s part_kernel \<Rightarrow> 's \<Rightarrow> wire list \<Rightarrow> wire list list \<Rightarrow> wire list list \<times> (error + 's)" where
  "cut_holes K mf [] calls = (calls, Inr mf)"
| "cut_holes K mf (w # ws) calls =
     (case Part_Face K [w] of
        Inl e \<Rightarrow> (calls @ [[w]], Inl e)
      | Inr f \<Rightarrow>
          (case cut K mf f of
             Inl e \<Rightarrow> (calls @ [[w]], Inl e)
           | Inr mf' \<Rightarrow> cut_holes K mf' ws (calls @ [[w]])))"

text \<open>
  \<^verbatim>\<open>makeFace(wires, method, cleanup)\<close>, called while no exception is being handled: a
  bare \<^verbatim>\<open>raise\<close> with no active exception is a RuntimeError (under an active handler
  it would raise that handler's exception again). \<^verbatim>\<open>DraftGeomUtils\<close> is not imported
  in this function nor in the module, so the clean-up loop stops on a NameError at its
  first wire. \<^verbatim>\<open>wires.remove(ext)\<close> raises ValueError when \<^verbatim>\<open>ext\<close> is still
  \<^verbatim>\<open>None\<close>.
\<close>

definition makeFace ::
  "'s part_kernel \<Rightarrow> wires_arg \<Rightarrow> int \<Rightarrow> bool \<Rightarrow> wire list list \<times> (error + 's)" where
  "makeFace K arg method cleanup =
     (case arg of
        Single w \<Rightarrow>
          (if length (Vertexes w) < 3 then ([], Inl RuntimeError)
           else ([[w]], Part_Face K [w]))
      | Many [w] \<Rightarrow>
          (if length (Vertexes w) < 3 then ([], Inl RuntimeError)
           else ([[w]], Part_Face K [w]))
      | Many wires \<Rightarrow>
          (if cleanup \<and> wires \<noteq> [] then ([], Inl NameError)
           else
             (case fst (find_ext (None, 0) wires) of
                None \<Rightarrow> ([], Inl ValueError)
              | Some ext \<Rightarrow>
                  (let holes = remove1 ext wires in
                   if method = 1 then
                     (let wires1 = map (reverse_each holes) (ext # holes)
                      in ([wires1], Part_Face K wires1))
                   else
                     (case Part_Face K [ext] of
                        Inl e \<Rightarrow> ([[ext]], Inl e)
                      | Inr mf \<Rightarrow>
                          (case cut_holes K mf holes [[ext]] of
                             (calls, Inl e) \<Rightarrow> (calls, Inl e)
                           | (calls, Inr mf') \<Rightarrow>
                               (case Faces K mf' of
                                  [] \<Rightarrow> (calls, Inl IndexError)
                                | f # _ \<Rightarrow> (calls, Inr f))))))))"

text \<open>
  The specification's reading of the same: the exterior wire is the first wire, in list
  order, whose diagonal is the largest of all; the holes are the other positions of the
  list; the face of each hole is cut in turn from the face on the exterior wire.
\<close>

definition largest_diagonal :: "wire list \<Rightarrow> real" where
  "largest_diagonal wires = Max (set (map DiagonalLength wires))"

definition exterior_index :: "wire list \<Rightarrow> nat" where
  "exterior_index wires =
     length (takeWhile (\<lambda>w. DiagonalLength w \<noteq> largest_diagonal wires) wires)"

definition cut_one :: "'s part_kernel \<Rightarrow> error + 's \<Rightarrow> wire \<Rightarrow> error + 's" where
  "cut_one K acc w =
     (case acc of
        Inl e \<Rightarrow> Inl e
      | Inr mf \<Rightarrow> (case Part_Face K [w] of Inl e \<Rightarrow> Inl e | Inr f \<Rightarrow> cut K mf f))"

definition face_with_holes :: "'s part_kernel \<Rightarrow> wire \<Rightarrow> wire list \<Rightarrow> error + 's" where
  "face_with_holes K ext holes =
     (case foldl (cut_one K) (Part_Face K [ext]) holes of
        Inl e \<Rightarrow> Inl e
      | Inr r \<Rightarrow> (case Faces K r of [] \<Rightarrow> Inl IndexError | f # _ \<Rightarrow> Inr f))"

text \<open>
  A kernel for examples: shapes are the terms that build them, no call fails, and a face
  or a cut has itself as its only face.
\<close>

datatype sym_shape =
    SFace "wire list" | SCut sym_shape sym_shape | SShell "sym_shape list" | SSolid sym_shape

definition sym_kernel :: "sym_shape part_kernel" where
  "sym_kernel = \<lparr> Part_Face = (\<lambda>ws. Inr (SFace ws)), cut = (\<lambda>a b. Inr (SCut a b)),
     Faces = (\<lambda>s. [s]) \<rparr>"

text \<open>A rectangle of sides \<open>3k\<close> and \<open>4k\<close>: its bounding box has the diagonal \<open>5k\<close>.\<close>

definition rectangle :: "nat \<Rightarrow> real \<Rightarrow> wire" where
  "rectangle i k = \<lparr> wire_id = i,
     Vertexes = [(0, 0, 0), (3 * k, 0, 0), (3 * k, 4 * k, 0), (0, 4 * k, 0)],
     DiagonalLength = 5 * k, Reversed = False \<rparr>"

text \<open>A wire shrunk to a point: its bounding box has the diagonal 0.\<close>

definition degenerate :: "nat \<Rightarrow> wire" where
  "degenerate i = \<lparr> wire_id = i, Vertexes = [(0, 0, 0), (0, 0, 0), (0, 0, 0)],
     DiagonalLength = 0, Reversed = False \<rparr>"

text \<open>A segment: a wire of two vertexes.\<close>

definition segment :: "nat \<Rightarrow> wire" where
  "segment i = \<lparr> wire_id = i, Vertexes = [(0, 0, 0), (3, 4, 0)],
     DiagonalLength = 5, Reversed = False \<rparr>"

subsection \<open>getExtrusionData\<close>

text \<open>
  A face of the shape, as far as \<^verbatim>\<open>getExtrusionData\<close> looks at it. \<open>normalAt00\<close> is
  \<^verbatim>\<open>f.normalAt(0,0)\<close>, \<open>None\<close> when the call raises \<^verbatim>\<open>Part.OCCError\<close>, the exception the
  source catches. \<open>hashCode\<close> is the kernel's identity of the face.
\<close>

record xface =
  hashCode :: int
  normalAt00 :: "vector option"
  CenterOfMass :: vector
  Area :: real

record 'sol xshape =
  isNull :: bool
  Solids :: "'sol list"
  shape_Faces :: "xface list"

datatype sortmethod = SortArea | SortZ | SortPoint vector

definition vz :: "vector \<Rightarrow> real" where
  "vz v = snd (snd v)"

definition vsub :: "vector \<Rightarrow> vector \<Rightarrow> vector" where
  "vsub a b = (fst a - fst b, fst (snd a) - fst (snd b), snd (snd a) - snd (snd b))"

definition vlength :: "vector \<Rightarrow> real" where
  "vlength v = sqrt ((fst v)\<^sup>2 + (fst (snd v))\<^sup>2 + (snd (snd v))\<^sup>2)"

text \<open>
  Python's \<^verbatim>\<open>round(x, 4)\<close>: the nearest multiple of \<open>1/10000\<close>, a tie going to the even
  one. \<open>round4 x\<close> is that multiple counted in units of \<open>1/10000\<close>, so that
  \<^verbatim>\<open>round(x, 4) == 3.1416\<close> is \<open>round4 x = 31416\<close>.
\<close>

definition round_half_even :: "real \<Rightarrow> int" where
  "round_half_even x =
     (let f = \<lfloor>x\<rfloor>; d = x - of_int f
      in if d < 1 / 2 then f else if d > 1 / 2 then f + 1
         else if even f then f else f + 1)"

definition round4 :: "real \<Rightarrow> int" where
  "round4 x = round_half_even (x * 10000)"

text \<open>The loop that pairs each face with its normal, leaving on the first failure.\<close>

fun build_faces :: "(xface \<times> vector) list \<Rightarrow> xface list \<Rightarrow> (xface \<times> vector) list option" where
  "build_faces faces [] = Some faces"
| "build_faces faces (f # fs) =
     (case normalAt00 f of
        None \<Rightarrow> None
      | Some n \<Rightarrow> build_faces (faces @ [(f, n)]) fs)"

text \<open>
  The two nested loops over \<^verbatim>\<open>enumerate(faces)\<close>; \<open>getAngle\<close> is the kernel's
  \<^verbatim>\<open>Vector.getAngle\<close>.
\<close>

definition find_pairs ::
  "(vector \<Rightarrow> vector \<Rightarrow> real) \<Rightarrow> (xface \<times> vector) list \<Rightarrow> (nat \<times> nat) list" where
  "find_pairs getAngle faces =
     concat (map (\<lambda>i1.
       concat (map (\<lambda>i2.
         if hashCode (fst (faces ! i1)) \<noteq> hashCode (fst (faces ! i2))
            \<and> round4 (getAngle (snd (faces ! i1)) (snd (faces ! i2))) = 31416
         then [(i1, i2)] else [])
       [0 ..< length faces]))
     [0 ..< length faces])"

text \<open>The inner loop of the second phase: \<^verbatim>\<open>ok\<close> after all faces were looked at.\<close>

definition pair_ok ::
  "(vector \<Rightarrow> vector \<Rightarrow> real) \<Rightarrow> (xface \<times> vector) list \<Rightarrow> nat \<times> nat \<Rightarrow> bool" where
  "pair_ok getAngle faces pair =
     (let hc = [hashCode (fst (faces ! fst pair)), hashCode (fst (faces ! snd pair))]
      in list_all (\<lambda>f. hashCode (fst f) \<in> set hc
                        \<or> round4 (getAngle (snd f) (snd (faces ! fst pair))) = 15708) faces)"

text \<open>
  \<open>sub\<close> and \<open>len\<close> are \<^verbatim>\<open>Vector.sub\<close> and \<^verbatim>\<open>Vector.Length\<close>. The kernel computes
  them in double precision, so they are parameters: \<open>vsub\<close> and \<open>vlength\<close> are what
  they compute when nothing is rounded.
\<close>

definition candidate ::
  "(vector \<Rightarrow> vector \<Rightarrow> vector) \<Rightarrow> xface \<Rightarrow> xface \<Rightarrow> xface \<times> vector" where
  "candidate sub f0 f1 =
     (if vz (CenterOfMass f0) < vz (CenterOfMass f1)
      then (f0, sub (CenterOfMass f1) (CenterOfMass f0))
      else (f1, sub (CenterOfMass f0) (CenterOfMass f1)))"

definition find_valids ::
  "(vector \<Rightarrow> vector \<Rightarrow> real) \<Rightarrow> (vector \<Rightarrow> vector \<Rightarrow> vector) \<Rightarrow> (xface \<times> vector) list
     \<Rightarrow> (nat \<times> nat) list \<Rightarrow> (xface \<times> vector) list" where
  "find_valids getAngle sub faces pairs =
     concat (map (\<lambda>pair.
       if pair_ok getAngle faces pair
       then [candidate sub (fst (faces ! fst pair)) (fst (faces ! snd pair))] else [])
     pairs)"

definition sort_value ::
  "(vector \<Rightarrow> vector \<Rightarrow> vector) \<Rightarrow> (vector \<Rightarrow> real) \<Rightarrow> sortmethod \<Rightarrow> xface \<times> vector
     \<Rightarrow> real" where
  "sort_value sub len sm v =
     (case sm of
        SortZ \<Rightarrow> vz (CenterOfMass (fst v))
      | SortArea \<Rightarrow> Area (fst v)
      | SortPoint p \<Rightarrow> len (sub (CenterOfMass (fst v)) p))"

text \<open>
  \<^verbatim>\<open>getExtrusionData(shape, sortmethod)\<close>; \<open>None\<close> is Python's \<^verbatim>\<open>None\<close>. \<^verbatim>\<open>list.sort\<close>
  is stable, as \<open>sort_key\<close> is.
\<close>

definition getExtrusionData ::
  "(vector \<Rightarrow> vector \<Rightarrow> real) \<Rightarrow> (vector \<Rightarrow> vector \<Rightarrow> vector) \<Rightarrow> (vector \<Rightarrow> real)
     \<Rightarrow> 'sol xshape \<Rightarrow> sortmethod \<Rightarrow> (xface \<times> vector) option" where
  "getExtrusionData getAngle sub len shape sm =
     (if isNull shape then None
      else if Solids shape = [] then None
      else if length (shape_Faces shape) < 3 then None
      else
        (case build_faces [] (shape_Faces shape) of
           None \<Rightarrow> None
         | Some faces \<Rightarrow>
             (let pairs = find_pairs getAngle faces in
              if pairs = [] then None
              else
                (let valids = find_valids getAngle sub faces pairs in
                 if valids \<noteq> [] then Some (hd (sort_key (sort_value sub len sm) valids))
                 else None))))"

text \<open>
  The specification's words. Two faces have opposite normals when the angle between the
  normals rounds to 3.1416; a pair of distinct faces is valid when moreover every face
  outside the pair has its normal at an angle that rounds to 1.5708 from the normal of the
  pair's first face.
\<close>

definition opposite_normals :: "(vector \<Rightarrow> vector \<Rightarrow> real) \<Rightarrow> xface \<Rightarrow> xface \<Rightarrow> bool" where
  "opposite_normals getAngle f1 f2 =
     (case (normalAt00 f1, normalAt00 f2) of
        (Some n1, Some n2) \<Rightarrow> round4 (getAngle n1 n2) = 31416
      | _ \<Rightarrow> False)"


definition has_opposite_pair :: "(vector \<Rightarrow> vector \<Rightarrow> real) \<Rightarrow> xface list \<Rightarrow> bool" where
  "has_opposite_pair getAngle fs =
     (\<exists>i1 < length fs. \<exists>i2 < length fs. i1 \<noteq> i2 \<and> opposite_normals getAngle (fs ! i1) (fs ! i2))"



text \<open>The list \<^verbatim>\<open>faces\<close> when every normal could be computed.\<close>

definition with_normals :: "xface list \<Rightarrow> (xface \<times> vector) list" where
  "with_normals fs = map (\<lambda>f. (f, the (normalAt00 f))) fs"

text \<open>
  Examples: a box of 10 by 20 by 30 standing on the plane \<open>z = 0\<close>, and three of its
  faces that meet in a corner. Their normals are along the axes, and \<open>axis_angle\<close> is
  the angle between two such normals, \<open>\<pi>\<close> and \<open>\<pi>/2\<close> to eight decimals.
\<close>

definition straight_angle :: real where
  "straight_angle = 314159265 / 100000000"

definition right_angle :: real where
  "right_angle = 157079633 / 100000000"

definition axis_angle :: "vector \<Rightarrow> vector \<Rightarrow> real" where
  "axis_angle a b =
     (if a = b then 0
      else if a = (- fst b, - fst (snd b), - snd (snd b)) then straight_angle
      else right_angle)"

definition box_face :: "int \<Rightarrow> vector \<Rightarrow> vector \<Rightarrow> real \<Rightarrow> xface" where
  "box_face h n c a = \<lparr> hashCode = h, normalAt00 = Some n, CenterOfMass = c, Area = a \<rparr>"

definition box :: "unit xshape" where
  "box = \<lparr> isNull = False, Solids = [()],
     shape_Faces =
       [box_face 1 (0, 0, 1) (5, 10, 30) 200,
        box_face 2 (0, 0, -1) (5, 10, 0) 200,
        box_face 3 (0, -1, 0) (5, 0, 15) 300,
        box_face 4 (0, 1, 0) (5, 20, 15) 300,
        box_face 5 (-1, 0, 0) (0, 10, 15) 600,
        box_face 6 (1, 0, 0) (10, 10, 15) 600] \<rparr>"

definition corner :: "unit xshape" where
  "corner = \<lparr> isNull = False, Solids = [()],
     shape_Faces =
       [box_face 1 (0, 0, 1) (5, 10, 30) 200,
        box_face 3 (0, -1, 0) (5, 0, 15) 300,
        box_face 5 (-1, 0, 0) (0, 10, 15) 600] \<rparr>"


subsection \<open>getCutVolume\<close>

record boundbox =
  XMin :: real
  YMin :: real
  ZMin :: real
  XMax :: real
  YMax :: real
  ZMax :: real

definition vadd :: "vector \<Rightarrow> vector \<Rightarrow> vector" where
  "vadd a b = (fst a + fst b, fst (snd a) + fst (snd b), snd (snd a) + snd (snd b))"

definition negative :: "vector \<Rightarrow> vector" where
  "negative a = (- fst a, - fst (snd a), - snd (snd a))"

text \<open>
  The calls \<^verbatim>\<open>getCutVolume\<close> makes into the kernel and into \<^verbatim>\<open>DraftVecUtils\<close>. None of
  them is inside a handler of the source, and each is taken to return. A face is a shape.
  \<open>polygon_Face\<close> is \<^verbatim>\<open>Part.Face(Part.makePolygon(points))\<close>.
\<close>

record 's cut_kernel =
  BoundBox :: "'s \<Rightarrow> boundbox"
  BoundBox_add :: "boundbox \<Rightarrow> boundbox \<Rightarrow> boundbox"
  BoundBox_enlarge :: "boundbox \<Rightarrow> real \<Rightarrow> boundbox"
  isCutPlane :: "boundbox \<Rightarrow> vector \<Rightarrow> vector \<Rightarrow> bool"
  face_CenterOfMass :: "'s \<Rightarrow> vector"
  face_normalAt :: "'s \<Rightarrow> real \<Rightarrow> real \<Rightarrow> vector"
  ParameterRange :: "'s \<Rightarrow> real \<times> real \<times> real \<times> real"
  valueAt :: "'s \<Rightarrow> real \<Rightarrow> real \<Rightarrow> vector"
  normalize :: "vector \<Rightarrow> vector"
  cross :: "vector \<Rightarrow> vector \<Rightarrow> vector"
  Length :: "vector \<Rightarrow> real"
  project :: "vector \<Rightarrow> vector \<Rightarrow> vector"
  scaleTo :: "vector \<Rightarrow> real \<Rightarrow> vector"
  polygon_Face :: "vector list \<Rightarrow> 's"
  extrude :: "'s \<Rightarrow> vector \<Rightarrow> 's"
  shape_cut :: "'s \<Rightarrow> 's \<Rightarrow> 's"
  fuse :: "'s \<Rightarrow> 's \<Rightarrow> 's"
  removeSplitter :: "'s \<Rightarrow> 's"

text \<open>
  The cut plane: its faces, whether it has a \<^verbatim>\<open>Shape\<close> attribute, and what the two
  expressions of the \<^verbatim>\<open>try\<close> block give, \<^verbatim>\<open>cutplane.Shape.copy().Faces[0]\<close> and
  \<^verbatim>\<open>cutplane.copy().Faces[0]\<close>: a face, or \<open>None\<close> when the kernel raises
  \<^verbatim>\<open>Part.OCCError\<close>.
\<close>

record 's cutplane =
  cutplane_Faces :: "'s list"
  has_Shape :: bool
  Shape_copy_face :: "'s option"
  copy_face :: "'s option"

text \<open>\<^verbatim>\<open>shapes\<close> is a list of shapes, or one shape that is not in a list.\<close>

datatype 's shapes_arg = Shapes "'s list" | OneShape 's

definition corners :: "boundbox \<Rightarrow> vector list" where
  "corners bb =
     [(XMin bb, YMin bb, ZMin bb), (XMin bb, YMax bb, ZMin bb),
      (XMax bb, YMin bb, ZMin bb), (XMax bb, YMax bb, ZMin bb),
      (XMin bb, YMin bb, ZMax bb), (XMin bb, YMax bb, ZMax bb),
      (XMax bb, YMin bb, ZMax bb), (XMax bb, YMax bb, ZMax bb)]"

text \<open>
  The loop over the corners, for one of the three directions: the longest projection of
  a corner, seen from \<open>ce\<close>, on the direction \<open>d\<close>, starting from 0.
\<close>

definition reach :: "'s cut_kernel \<Rightarrow> vector \<Rightarrow> vector \<Rightarrow> vector list \<Rightarrow> real" where
  "reach K ce d cs = foldl (\<lambda>m c. max m (Length K (project K (vsub c ce) d))) 0 cs"

text \<open>The part of \<^verbatim>\<open>getCutVolume\<close> that follows the test \<^verbatim>\<open>bb.isCutPlane(ce, ax)\<close>.\<close>

definition cut_volumes ::
  "'s cut_kernel \<Rightarrow> 's \<Rightarrow> boundbox \<Rightarrow> bool \<Rightarrow> real option \<Rightarrow> 's \<times> 's \<times> 's" where
  "cut_volumes K p bb clip depth =
     (let ce = face_CenterOfMass K p;
          ax = face_normalAt K p 0 0;
          prm_range = ParameterRange K p;
          u = normalize K (vsub (valueAt K p (fst prm_range) 0)
                                (valueAt K p (fst (snd prm_range)) 0));
          v = cross K u ax;
          um = reach K ce u (corners bb);
          vm = reach K ce v (corners bb);
          wm = reach K ce ax (corners bb);
          vu = scaleTo K u um;
          vui = negative vu;
          vv = scaleTo K v vm;
          vvi = negative vv;
          p1 = vadd ce (vadd vu vvi);
          p2 = vadd ce (vadd vu vv);
          p3 = vadd ce (vadd vui vv);
          p4 = vadd ce (vadd vui vvi);
          cutface = polygon_Face K [p1, p2, p3, p4, p1];
          cutnormal = scaleTo K ax wm;
          cutvolume = extrude K cutface cutnormal;
          cutnormal = negative cutnormal;
          invcutvolume = extrude K cutface cutnormal;
          (cutface, cutvolume, invcutvolume) =
            (if clip then
               (let extrudedplane = extrude K p cutnormal;
                    bordervolume = shape_cut K invcutvolume extrudedplane
                in (p, removeSplitter K (fuse K cutvolume bordervolume), extrudedplane))
             else (cutface, cutvolume, invcutvolume));
          cutvolume =
            (if depth \<noteq> None \<and> depth \<noteq> Some 0 then
               (let depthnormal = scaleTo K cutnormal (the depth);
                    depthvolume = extrude K cutface depthnormal;
                    depthclipvolume = shape_cut K invcutvolume depthvolume
                in removeSplitter K (fuse K cutvolume depthclipvolume))
             else cutvolume)
      in (cutface, cutvolume, invcutvolume))"

text \<open>
  \<^verbatim>\<open>getCutVolume(cutplane, shapes, clip, depth)\<close>; \<open>None\<close> is the triple
  \<^verbatim>\<open>(None, None, None)\<close>. A shape that is not in a list counts as true in \<^verbatim>\<open>not shapes\<close>.
\<close>

definition getCutVolume ::
  "'s cut_kernel \<Rightarrow> 's cutplane \<Rightarrow> 's shapes_arg \<Rightarrow> bool \<Rightarrow> real option
     \<Rightarrow> ('s \<times> 's \<times> 's) option" where
  "getCutVolume K cutplane shapes clip depth =
     (case (case shapes of Shapes l \<Rightarrow> l | OneShape s \<Rightarrow> [s]) of
        [] \<Rightarrow> None
      | s0 # rest \<Rightarrow>
          (if cutplane_Faces cutplane = [] then None
           else
             (let bb = BoundBox_enlarge K
                         (foldl (\<lambda>bb sh. BoundBox_add K bb (BoundBox K sh)) (BoundBox K s0) rest) 1
              in case (if has_Shape cutplane then Shape_copy_face cutplane
                       else copy_face cutplane) of
                   None \<Rightarrow> None
                 | Some p \<Rightarrow>
                     (if \<not> isCutPlane K bb (face_CenterOfMass K p) (face_normalAt K p 0 0)
                      then None
                      else Some (cut_volumes K p bb clip depth)))))"

text \<open>
  The specification's words: the shapes as a list, the bounding box of them all enlarged
  by 1, and the first face of the cut plane when the kernel extracts it.
\<close>

definition shape_list :: "'s shapes_arg \<Rightarrow> 's list" where
  "shape_list shapes = (case shapes of Shapes l \<Rightarrow> l | OneShape s \<Rightarrow> [s])"

definition enlarged_box :: "'s cut_kernel \<Rightarrow> 's list \<Rightarrow> boundbox" where
  "enlarged_box K shs =
     BoundBox_enlarge K
       (foldl (BoundBox_add K) (BoundBox K (hd shs)) (map (BoundBox K) (tl shs))) 1"

definition first_face :: "'s cutplane \<Rightarrow> 's option" where
  "first_face cutplane =
     (if has_Shape cutplane then Shape_copy_face cutplane else copy_face cutplane)"

text \<open>
  A kernel for examples whose geometry is along the axes: shapes are the terms that build
  them, the vector operations are exact on vectors along an axis, and the one plane face
  is the square from \<open>(0, 0, 0)\<close> to \<open>(10, 10, 0)\<close>, its normal pointing up.
\<close>

datatype tshape =
    TBox boundbox | TPlane | TPoly "vector list" | TExtr tshape vector
  | TCut tshape tshape | TFuse tshape tshape | TClean tshape

definition dot :: "vector \<Rightarrow> vector \<Rightarrow> real" where
  "dot a b = fst a * fst b + fst (snd a) * fst (snd b) + snd (snd a) * snd (snd b)"

definition smult :: "real \<Rightarrow> vector \<Rightarrow> vector" where
  "smult k a = (k * fst a, k * fst (snd a), k * snd (snd a))"

definition axis_kernel :: "tshape cut_kernel" where
  "axis_kernel = \<lparr>
     BoundBox = (\<lambda>s. case s of TBox b \<Rightarrow> b
                 | _ \<Rightarrow> \<lparr> XMin = 0, YMin = 0, ZMin = 0, XMax = 0, YMax = 0, ZMax = 0 \<rparr>),
     BoundBox_add = (\<lambda>a b. \<lparr> XMin = min (XMin a) (XMin b), YMin = min (YMin a) (YMin b),
                 ZMin = min (ZMin a) (ZMin b), XMax = max (XMax a) (XMax b),
                 YMax = max (YMax a) (YMax b), ZMax = max (ZMax a) (ZMax b) \<rparr>),
     BoundBox_enlarge = (\<lambda>b d. \<lparr> XMin = XMin b - d, YMin = YMin b - d, ZMin = ZMin b - d,
                 XMax = XMax b + d, YMax = YMax b + d, ZMax = ZMax b + d \<rparr>),
     isCutPlane = (\<lambda>bb ce ax. list_ex (\<lambda>c. dot (vsub c ce) ax < 0) (corners bb)
                 \<and> list_ex (\<lambda>c. dot (vsub c ce) ax > 0) (corners bb)),
     face_CenterOfMass = (\<lambda>p. (5, 5, 0)),
     face_normalAt = (\<lambda>p u v. (0, 0, 1)),
     ParameterRange = (\<lambda>p. (0, 10, 0, 10)),
     valueAt = (\<lambda>p u v. (u, v, 0)),
     normalize = (\<lambda>a. (sgn (fst a), sgn (fst (snd a)), sgn (snd (snd a)))),
     cross = (\<lambda>a b. (fst (snd a) * snd (snd b) - snd (snd a) * fst (snd b),
                 snd (snd a) * fst b - fst a * snd (snd b),
                 fst a * fst (snd b) - fst (snd a) * fst b)),
     Length = (\<lambda>a. \<bar>fst a\<bar> + \<bar>fst (snd a)\<bar> + \<bar>snd (snd a)\<bar>),
     project = (\<lambda>a b. if dot b b = 0 then (0, 0, 0) else smult (dot a b / dot b b) b),
     scaleTo = (\<lambda>a l. if a = (0, 0, 0) then a
                 else smult (l / (\<bar>fst a\<bar> + \<bar>fst (snd a)\<bar> + \<bar>snd (snd a)\<bar>)) a),
     polygon_Face = TPoly,
     extrude = TExtr,
     shape_cut = TCut,
     fuse = TFuse,
     removeSplitter = TClean \<rparr>"

definition ground_plane :: "tshape cutplane" where
  "ground_plane = \<lparr> cutplane_Faces = [TPlane], has_Shape = False, Shape_copy_face = None,
     copy_face = Some TPlane \<rparr>"

definition block :: tshape where
  "block = TBox \<lparr> XMin = 2, YMin = 2, ZMin = -5, XMax = 8, YMax = 8, ZMax = 5 \<rparr>"

definition block_above :: tshape where
  "block_above = TBox \<lparr> XMin = 2, YMin = 2, ZMin = 3, XMax = 8, YMax = 8, ZMax = 5 \<rparr>"

definition cover :: tshape where
  "cover = TPoly [(1, 1, 0), (1, 9, 0), (9, 9, 0), (9, 1, 0), (1, 1, 0)]"

text \<open>
  A block that the plane \<open>z = 0\<close> cuts, its bounding box enlarged by 1, a block that
  lies above the plane, and the rectangle on the plane that covers the enlarged box.
\<close>

definition enlarged_block :: boundbox where
  "enlarged_block = \<lparr> XMin = 1, YMin = 1, ZMin = -6, XMax = 9, YMax = 9, ZMax = 6 \<rparr>"

subsection \<open>addComponents\<close>

text \<open>
  The first argument is a list of objects, or one object that is not in a list. Reading a
  property of a document object gives a list of its own: the source changes that list
  and, to change the object, assigns it back (\<^verbatim>\<open>g = o.Hosts; g.append(host); o.Hosts = g\<close>).
  So the lists \<^verbatim>\<open>a\<close> and \<^verbatim>\<open>x\<close> are values carried by the loop, next to the store.
\<close>

datatype objects_arg = ObjectList "oid list" | OneObject oid

definition as_list :: "objects_arg \<Rightarrow> oid list" where
  "as_list arg = (case arg of ObjectList l \<Rightarrow> l | OneObject ob \<Rightarrow> [ob])"

definition wall_like :: "string list" where
  "wall_like = [''Wall'', ''CurtainWall'', ''Structure'', ''Precast'', ''Window'', ''Roof'',
     ''Stairs'', ''StructuralSystem'', ''Panel'', ''Component'', ''Pipe'']"







subsection \<open>removeComponents\<close>

text \<open>
  The loop over \<^verbatim>\<open>objectsList[:]\<close> that takes the axes out of both lists;
  \<^verbatim>\<open>list.remove\<close> removes the first occurrence.
\<close>

fun axes_loop :: "oid list \<times> oid list \<Rightarrow> oid list \<Rightarrow> oid list \<times> oid list" where
  "axes_loop (a, objectsList) [] = (a, objectsList)"
| "axes_loop (a, objectsList) (ob # obs) =
     (if ob \<in> set a then axes_loop (remove1 ob a, remove1 ob objectsList) obs
      else axes_loop (a, objectsList) obs)"

text \<open>
  The inner loop over \<^verbatim>\<open>objList\<close>: an attachment support that starts with the host is
  removed. The message printed on the console is not part of the state.
\<close>

definition detach :: "oid \<Rightarrow> ('s, 'm) store \<Rightarrow> oid \<Rightarrow> ('s, 'm) store" where
  "detach host st i =
     (case AttachmentSupport (st i) of
        None \<Rightarrow> st
      | Some asup \<Rightarrow>
          (let objHost = (case asup of None \<Rightarrow> None
                          | Some (SupTuple h) \<Rightarrow> Some h
                          | Some (SupList h) \<Rightarrow> Some h
                          | Some (SupObj h) \<Rightarrow> Some h)
           in if objHost = Some host
              then st(i := (st i)\<lparr> AttachmentSupport := Some None \<rparr>) else st))"

text \<open>
  The body of the loop over the objects left. \<open>GuiUp\<close> is \<^verbatim>\<open>FreeCAD.GuiUp\<close>; of
  \<^verbatim>\<open>setAsSubcomponent\<close>, which ungroups and restyles the object, the model keeps a flag.
\<close>

definition remove_step ::
  "bool \<Rightarrow> oid \<Rightarrow> ('s, 'm) store \<times> oid list \<Rightarrow> oid \<Rightarrow> ('s, 'm) store \<times> oid list" where
  "remove_step GuiUp host state ob =
     (case state of (st, s) \<Rightarrow>
        if DraftType (st ob) = ''Window'' then
          (case Hosts (st ob) of
             None \<Rightarrow> (st, s)
           | Some g \<Rightarrow>
               if host \<notin> set g
               then (st(ob := (st ob)\<lparr> Hosts := Some (g @ [host]) \<rparr>), s)
               else (st, s))
        else if ob \<notin> set s then
          (let st1 = (if GuiUp \<and> DraftType (st ob) \<notin> set [''Window'', ''Roof'']
                      then st(ob := (st ob)\<lparr> Subcomponent := True \<rparr>) else st);
               objList = (case Base (st1 ob) of Some (Some b) \<Rightarrow> [ob, b] | _ \<Rightarrow> [ob])
           in (foldl (detach host) st1 objList, s @ [ob]))
        else (st, s))"

text \<open>
  \<^verbatim>\<open>removeComponents(objectsList, host)\<close> with a host, the branch of the source under
  \<^verbatim>\<open>if host:\<close>. The list \<^verbatim>\<open>a\<close> read from \<^verbatim>\<open>host.Axes\<close> is changed by the first loop and
  then dropped: the source has no \<^verbatim>\<open>host.Axes = a\<close>.
\<close>

definition removeComponents ::
  "bool \<Rightarrow> objects_arg \<Rightarrow> oid \<Rightarrow> ('s, 'm) store \<Rightarrow> error + ('s, 'm) store" where
  "removeComponents GuiUp arg host st =
     (let objectsList = as_list arg in
      if DraftType (st host) \<in> set wall_like then
        (case (case Tool (st host) of
                 None \<Rightarrow> Inr st
               | Some tool \<Rightarrow>
                   (case objectsList of
                      [] \<Rightarrow> Inl IndexError
                    | first # _ \<Rightarrow>
                        Inr (if Some first = tool
                             then st(host := (st host)\<lparr> Tool := Some None \<rparr>) else st))) of
           Inl e \<Rightarrow> Inl e
         | Inr st1 \<Rightarrow>
             (let objectsList =
                    (case Axes (st1 host) of
                       None \<Rightarrow> objectsList
                     | Some a \<Rightarrow> snd (axes_loop (a, objectsList) objectsList));
                  (st2, s) = foldl (remove_step GuiUp host) (st1, Subtractions (st1 host))
                               objectsList
              in Inr (st2(host := (st2 host)\<lparr> Subtractions := s \<rparr>))))
      else if DraftType (st host) \<in> set [''SectionPlane''] then
        Inr (st(host := (st host)\<lparr> Objects :=
               foldl (\<lambda>a ob. if ob \<in> set a then remove1 ob a else a) (Objects (st host))
                 objectsList \<rparr>))
      else Inr st)"

subsection \<open>What the loop of addComponents changes\<close>





text \<open>
  A document for examples: a wall (0) that has the box 2 among its additions, two boxes
  (1, 2), a window (3), an axis system whose shape is a line (4), a group without a shape
  (5), a structure (6) and, for every other identifier, a floor.
\<close>

datatype example_shape = Line | Solid3



definition site_doc :: "(example_shape, unit) store" where
  "site_doc i =
     (if i = 0 then (plain ''Wall'' ''Wall'')
             \<lparr> Shape := Some Solid3, Additions := [2], Axes := Some [] \<rparr>
      else if i = 1 then (plain ''Box'' ''Part'') \<lparr> Shape := Some Solid3 \<rparr>
      else if i = 2 then (plain ''Box001'' ''Part'') \<lparr> Shape := Some Solid3 \<rparr>
      else if i = 3 then (plain ''Window'' ''Window'') \<lparr> Shape := Some Solid3, Hosts := Some [] \<rparr>
      else if i = 4 then (plain ''Axes'' ''Axis'')
             \<lparr> Shape := Some Line, AttachmentSupport := Some None \<rparr>
      else if i = 5 then plain ''Group'' ''Group''
      else if i = 6 then (plain ''Structure'' ''Structure'')
             \<lparr> Shape := Some Solid3, Axes := Some [], Tool := Some None \<rparr>
      else plain ''Floor'' ''Floor'')"

text \<open>The same document, the axis system 4 being among the axes of the wall.\<close>

definition axis_wall_doc :: "(example_shape, unit) store" where
  "axis_wall_doc = site_doc(0 := (site_doc 0)\<lparr> Axes := Some [4] \<rparr>)"

subsection \<open>getShapeFromMesh and meshToShape\<close>

text \<open>
  The calls into the mesh library and into \<^verbatim>\<open>Part\<close>. Those that the source wraps in a
  \<^verbatim>\<open>try\<close> return a sum; a handler for \<^verbatim>\<open>Part.OCCError\<close> lets any other exception
  through. \<open>Face_of_polygon\<close> is \<^verbatim>\<open>Part.Face(Part.makePolygon(pts))\<close>.
\<close>

record ('m, 's) mesh_kernel =
  isSolid :: "'m \<Rightarrow> bool"
  countComponents :: "'m \<Rightarrow> int"
  Facets :: "'m \<Rightarrow> vector list list"
  getPlanarSegments :: "'m \<Rightarrow> real \<Rightarrow> nat list list"
  wireFromSegment :: "'m \<Rightarrow> nat list \<Rightarrow> wire list"
  flattenWire :: "wire \<Rightarrow> wire"
  Face_of_polygon :: "vector list \<Rightarrow> error + 's"
  Part_makeShell :: "'s list \<Rightarrow> error + 's"
  Part_Solid :: "'s \<Rightarrow> error + 's"
  try_removeSplitter :: "'s \<Rightarrow> error + 's"
  Part_makeCompound :: "'s list \<Rightarrow> error + 's"
  isClosed :: "'s \<Rightarrow> bool"
  isValid :: "'s \<Rightarrow> bool"

text \<open>
  The loop over the facets of the fast method: a facet whose face cannot be built is
  skipped. \<^verbatim>\<open>f.Points[0]\<close> is outside the \<^verbatim>\<open>try\<close>.
\<close>

fun facet_faces ::
  "('m, 's) mesh_kernel \<Rightarrow> 's list \<Rightarrow> vector list list \<Rightarrow> error + 's list" where
  "facet_faces M faces [] = Inr faces"
| "facet_faces M faces (points # fs) =
     (case points of
        [] \<Rightarrow> Inl IndexError
      | p0 # _ \<Rightarrow>
          (case Face_of_polygon M (points @ [p0]) of
             Inl e \<Rightarrow> facet_faces M faces fs
           | Inr f \<Rightarrow> facet_faces M (faces @ [f]) fs))"

text \<open>
  The fast method; \<open>Inr None\<close> when \<^verbatim>\<open>Part.Solid\<close> raised \<^verbatim>\<open>Part.OCCError\<close> and the
  function goes on with the slow method.
\<close>

definition fast_method :: "('m, 's) mesh_kernel \<Rightarrow> 'm \<Rightarrow> error + 's option" where
  "fast_method M mesh =
     (case facet_faces M [] (Facets M mesh) of
        Inl e \<Rightarrow> Inl e
      | Inr faces \<Rightarrow>
          (case Part_makeShell M faces of
             Inl e \<Rightarrow> Inl e
           | Inr shell \<Rightarrow>
               (case Part_Solid M shell of
                  Inl OCCError \<Rightarrow> Inr None
                | Inl e \<Rightarrow> Inl e
                | Inr solid \<Rightarrow>
                    (case try_removeSplitter M solid of
                       Inl OCCError \<Rightarrow> Inr (Some solid)
                     | Inl e \<Rightarrow> Inl e
                     | Inr solid' \<Rightarrow> Inr (Some solid')))))"

text \<open>
  The loop over the planar segments; \<open>None\<close> when \<^verbatim>\<open>makeFace\<close> raised and the function
  returned \<^verbatim>\<open>None\<close>. The method of \<^verbatim>\<open>makeFace\<close> is \<^verbatim>\<open>int(cut) + 1\<close>;
  the parameter \<^verbatim>\<open>cut\<close> is written \<open>cut'\<close>.
\<close>

fun segment_faces ::
  "'s part_kernel \<Rightarrow> ('m, 's) mesh_kernel \<Rightarrow> 'm \<Rightarrow> bool \<Rightarrow> bool \<Rightarrow> 's list \<Rightarrow> nat list list
     \<Rightarrow> 's list option" where
  "segment_faces K M mesh flat cut' faces [] = Some faces"
| "segment_faces K M mesh flat cut' faces (i # segments) =
     (if length i > 0 then
        (let wires = wireFromSegment M mesh i in
         if wires \<noteq> [] then
           (let wires = (if flat then map (flattenWire M) wires else wires) in
            case snd (makeFace K (Many wires) (if cut' then 2 else 1) False) of
              Inl e \<Rightarrow> None
            | Inr f \<Rightarrow> segment_faces K M mesh flat cut' (faces @ [f]) segments)
         else segment_faces K M mesh flat cut' faces segments)
      else segment_faces K M mesh flat cut' faces segments)"

definition slow_method ::
  "'s part_kernel \<Rightarrow> ('m, 's) mesh_kernel \<Rightarrow> 'm \<Rightarrow> real \<Rightarrow> bool \<Rightarrow> bool \<Rightarrow> error + 's option" where
  "slow_method K M mesh tolerance flat cut' =
     (case segment_faces K M mesh flat cut' [] (getPlanarSegments M mesh tolerance) of
        None \<Rightarrow> Inr None
      | Some faces \<Rightarrow>
          (case (case Part_makeShell M faces of
                   Inl e \<Rightarrow> Inl e
                 | Inr se \<Rightarrow> try_removeSplitter M se) of
             Inl OCCError \<Rightarrow>
               (case Part_makeCompound M faces of
                  Inl OCCError \<Rightarrow> Inr None
                | Inl e \<Rightarrow> Inl e
                | Inr cp \<Rightarrow> Inr (Some cp))
           | Inl e \<Rightarrow> Inl e
           | Inr se \<Rightarrow>
               if flat then Inr (Some se)
               else
                 (case Part_Solid M se of
                    Inl OCCError \<Rightarrow> Inr (Some se)
                  | Inl e \<Rightarrow> Inl e
                  | Inr solid \<Rightarrow>
                      if isClosed M solid then Inr (Some solid) else Inr (Some se))))"

definition getShapeFromMesh ::
  "'s part_kernel \<Rightarrow> ('m, 's) mesh_kernel \<Rightarrow> 'm \<Rightarrow> bool \<Rightarrow> real \<Rightarrow> bool \<Rightarrow> bool
     \<Rightarrow> error + 's option" where
  "getShapeFromMesh K M mesh fast tolerance flat cut' =
     (if isSolid M mesh \<and> countComponents M mesh = 1 \<and> fast then
        (case fast_method M mesh of
           Inl e \<Rightarrow> Inl e
         | Inr (Some solid) \<Rightarrow> Inr (Some solid)
         | Inr None \<Rightarrow> slow_method K M mesh tolerance flat cut')
      else slow_method K M mesh tolerance flat cut')"

text \<open>
  The document, as \<^verbatim>\<open>meshToShape\<close> uses it: \<^verbatim>\<open>removeObject(name)\<close>,
  \<^verbatim>\<open>addObject(type, name)\<close>, which gives the new object, and the assignments to the
  new object's \<^verbatim>\<open>Shape\<close> and to its view object's \<^verbatim>\<open>ShapeColor\<close>; the view object is
  taken to exist.
\<close>

record ('d, 'o, 's) doc_api =
  doc_removeObject :: "'d \<Rightarrow> string \<Rightarrow> 'd"
  doc_addObject :: "'d \<Rightarrow> string \<Rightarrow> string \<Rightarrow> 'd \<times> 'o"
  set_Shape :: "'d \<Rightarrow> 'o \<Rightarrow> 's \<Rightarrow> 'd"
  set_ShapeColor :: "'d \<Rightarrow> 'o \<Rightarrow> real \<times> real \<times> real \<times> real \<Rightarrow> 'd"

text \<open>
  \<^verbatim>\<open>meshToShape(obj, mark, fast, tol, flat, cut)\<close>: the document after the call and the
  object returned, \<open>None\<close> for \<^verbatim>\<open>None\<close>. A shape counts as true in \<^verbatim>\<open>if solid:\<close>.
\<close>

definition meshToShape ::
  "('d, 'o, 's) doc_api \<Rightarrow> 's part_kernel \<Rightarrow> ('m, 's) mesh_kernel \<Rightarrow> ('s, 'm) docobj
     \<Rightarrow> bool \<Rightarrow> bool \<Rightarrow> real \<Rightarrow> bool \<Rightarrow> bool \<Rightarrow> 'd \<Rightarrow> error + ('d \<times> 'o option)" where
  "meshToShape D K M obj mark fast tol flat cut' doc =
     (let name = Name obj in
      case Mesh obj of
        None \<Rightarrow> Inr (doc, None)
      | Some mesh \<Rightarrow>
          (case getShapeFromMesh K M mesh fast tol flat cut' of
             Inl e \<Rightarrow> Inl e
           | Inr None \<Rightarrow> Inr (doc, None)
           | Inr (Some solid) \<Rightarrow>
               (let doc1 = (if isClosed M solid \<and> isValid M solid
                            then doc_removeObject D doc name else doc);
                    (doc2, newobj) = doc_addObject D doc1 ''Part::Feature'' name;
                    doc3 = set_Shape D doc2 newobj solid;
                    doc4 = (if \<not> isClosed M solid \<or> \<not> isValid M solid
                            then (if mark then set_ShapeColor D doc3 newobj (1, 0, 0, 1)
                                  else doc3)
                            else doc3)
                in Inr (doc4, Some newobj))))"

text \<open>
  Examples: three meshes and a mesh library for them. The closed mesh has four facets and
  goes through the fast method; the open mesh has one planar segment bounded by a
  rectangle, and a shell of one face cannot be made a solid; the bad mesh has a segment
  bounded by two points only, on which \<open>makeFace\<close> raises.
\<close>

datatype example_mesh = ClosedMesh | OpenMesh | BadMesh

definition triangle :: "nat \<Rightarrow> vector list" where
  "triangle i = [(0, 0, 0), (3, 0, 0), (0, 4, real i)]"

definition polygon_wire :: "vector list \<Rightarrow> wire" where
  "polygon_wire pts = \<lparr> wire_id = 0, Vertexes = pts, DiagonalLength = 5, Reversed = False \<rparr>"

definition mesh_lab :: "(example_mesh, sym_shape) mesh_kernel" where
  "mesh_lab = \<lparr>
     isSolid = (\<lambda>m. m = ClosedMesh),
     countComponents = (\<lambda>m. 1),
     Facets = (\<lambda>m. [triangle 0, triangle 1, triangle 2, triangle 3]),
     getPlanarSegments = (\<lambda>m tol. [[], [0]]),
     wireFromSegment = (\<lambda>m seg. if m = BadMesh then [segment 7] else [rectangle 2 1]),
     flattenWire = (\<lambda>w. w),
     Face_of_polygon = (\<lambda>pts. Inr (SFace [polygon_wire pts])),
     Part_makeShell = (\<lambda>fs. Inr (SShell fs)),
     Part_Solid = (\<lambda>s. case s of SShell [f] \<Rightarrow> Inl OCCError | _ \<Rightarrow> Inr (SSolid s)),
     try_removeSplitter = (\<lambda>s. Inr s),
     Part_makeCompound = (\<lambda>fs. Inr (SShell fs)),
     isClosed = (\<lambda>s. case s of SSolid _ \<Rightarrow> True | _ \<Rightarrow> False),
     isValid = (\<lambda>s. True) \<rparr>"

definition mesh_object :: "example_mesh \<Rightarrow> (sym_shape, example_mesh) docobj" where
  "mesh_object m = (plain ''Mesh'' ''Mesh'') \<lparr> TypeId := Some ''Mesh::Feature'', Mesh := Some m \<rparr>"

definition open_shell :: sym_shape where
  "open_shell = SShell [SFace [rectangle 2 1]]"

definition closed_solid :: sym_shape where
  "closed_solid = SSolid (SShell [SFace [polygon_wire (triangle 0 @ [(0, 0, 0)])],
     SFace [polygon_wire (triangle 1 @ [(0, 0, 0)])],
     SFace [polygon_wire (triangle 2 @ [(0, 0, 0)])],
     SFace [polygon_wire (triangle 3 @ [(0, 0, 0)])]])"

text \<open>
  What can be seen of a document: its objects, and the name, the type, the shape and the
  colour of an object in it.
\<close>

record ('d, 'o, 's) doc_view =
  objects_of :: "'d \<Rightarrow> 'o set"
  name_of :: "'d \<Rightarrow> 'o \<Rightarrow> string"
  typeid_of :: "'d \<Rightarrow> 'o \<Rightarrow> string"
  shape_of :: "'d \<Rightarrow> 'o \<Rightarrow> 's option"
  color_of :: "'d \<Rightarrow> 'o \<Rightarrow> (real \<times> real \<times> real \<times> real) option"

text \<open>
  What is taken of the document: \<^verbatim>\<open>removeObject(name)\<close> removes the objects of that
  name and renames none; \<^verbatim>\<open>addObject(type, name)\<close> adds one object, new to the
  document and of that type, under that name when no object bears it and under another
  name when one does; an assignment to the shape or to the colour of an object changes
  that property of that object, and neither the objects of the document nor the object's
  name and type; the colour leaves the shape as it is.
\<close>

definition document_laws :: "('d, 'o, 's) doc_view \<Rightarrow> ('d, 'o, 's) doc_api \<Rightarrow> bool" where
  "document_laws V D =
     ((\<forall>d n. objects_of V (doc_removeObject D d n)
               = {ob \<in> objects_of V d. name_of V d ob \<noteq> n})
      \<and> (\<forall>d n ob. ob \<in> objects_of V (doc_removeObject D d n)
            \<longrightarrow> name_of V (doc_removeObject D d n) ob = name_of V d ob)
      \<and> (\<forall>d t n d' ob. doc_addObject D d t n = (d', ob) \<longrightarrow>
            ob \<notin> objects_of V d
            \<and> objects_of V d' = insert ob (objects_of V d)
            \<and> typeid_of V d' ob = t
            \<and> ((\<forall>p\<in>objects_of V d. name_of V d p \<noteq> n) \<longrightarrow> name_of V d' ob = n)
            \<and> ((\<exists>p\<in>objects_of V d. name_of V d p = n) \<longrightarrow> name_of V d' ob \<noteq> n))
      \<and> (\<forall>d ob s.
            objects_of V (set_Shape D d ob s) = objects_of V d
            \<and> name_of V (set_Shape D d ob s) ob = name_of V d ob
            \<and> typeid_of V (set_Shape D d ob s) ob = typeid_of V d ob
            \<and> (ob \<in> objects_of V d \<longrightarrow> shape_of V (set_Shape D d ob s) ob = Some s))
      \<and> (\<forall>d ob c.
            objects_of V (set_ShapeColor D d ob c) = objects_of V d
            \<and> name_of V (set_ShapeColor D d ob c) ob = name_of V d ob
            \<and> typeid_of V (set_ShapeColor D d ob c) ob = typeid_of V d ob
            \<and> shape_of V (set_ShapeColor D d ob c) ob = shape_of V d ob
            \<and> (ob \<in> objects_of V d \<longrightarrow> color_of V (set_ShapeColor D d ob c) ob = Some c)))"

text \<open>
  A document for examples: numbered slots, the objects being the slots in use below
  \<open>next_id\<close>. A new object takes the slot \<open>next_id\<close>, and the name asked for, or that
  name followed by \<open>001\<close> when an object bears it.
\<close>

record ('s, 'm) slots =
  next_id :: nat
  slot :: "nat \<Rightarrow> ('s, 'm) docobj option"

definition name_taken :: "('s, 'm) slots \<Rightarrow> string \<Rightarrow> bool" where
  "name_taken d n =
     list_ex (\<lambda>i. case slot d i of None \<Rightarrow> False | Some ob \<Rightarrow> Name ob = n) [0 ..< next_id d]"

definition slots_api :: "(('s, 'm) slots, nat, 's) doc_api" where
  "slots_api = \<lparr>
     doc_removeObject = (\<lambda>d n. d \<lparr> slot := (\<lambda>i.
        case slot d i of None \<Rightarrow> None
        | Some ob \<Rightarrow> if Name ob = n then None else Some ob) \<rparr>),
     doc_addObject = (\<lambda>d t n.
        (d \<lparr> next_id := Suc (next_id d),
             slot := (slot d)(next_id d :=
               Some ((plain (if name_taken d n then n @ ''001'' else n) t)
                        \<lparr> TypeId := Some t \<rparr>)) \<rparr>,
         next_id d)),
     set_Shape = (\<lambda>d i s. d \<lparr> slot := (slot d)(i :=
        map_option (\<lambda>ob. ob \<lparr> Shape := Some s \<rparr>) (slot d i)) \<rparr>),
     set_ShapeColor = (\<lambda>d i c. d \<lparr> slot := (slot d)(i :=
        map_option (\<lambda>ob. ob \<lparr> ShapeColor := Some c \<rparr>) (slot d i)) \<rparr>) \<rparr>"

definition slots_view :: "(('s, 'm) slots, nat, 's) doc_view" where
  "slots_view = \<lparr>
     objects_of = (\<lambda>d. {i. i < next_id d \<and> slot d i \<noteq> None}),
     name_of = (\<lambda>d i. case slot d i of None \<Rightarrow> [] | Some ob \<Rightarrow> Name ob),
     typeid_of = (\<lambda>d i. case slot d i of None \<Rightarrow> []
                  | Some ob \<Rightarrow> (case TypeId ob of None \<Rightarrow> [] | Some t \<Rightarrow> t)),
     shape_of = (\<lambda>d i. case slot d i of None \<Rightarrow> None | Some ob \<Rightarrow> Shape ob),
     color_of = (\<lambda>d i. case slot d i of None \<Rightarrow> None | Some ob \<Rightarrow> ShapeColor ob) \<rparr>"

text \<open>The document that holds one mesh object, in the slot 0.\<close>

definition mesh_doc :: "example_mesh \<Rightarrow> (sym_shape, example_mesh) slots" where
  "mesh_doc m = \<lparr> next_id = 1, slot = (\<lambda>i. if i = 0 then Some (mesh_object m) else None) \<rparr>"

section \<open>Properties\<close>

subsection \<open>getStringList\<close>

lemma getStringList_loop_started:
  "length result > 1 \<Longrightarrow>
   getStringList_loop result objects =
     result @ concat (map (\<lambda>ob. '','' @ ''FreeCAD.ActiveDocument.'' @ Name ob) objects)"
  by (induction objects arbitrary: result) simp_all

lemma comma_separated_Cons:
  "comma_separated (x # xs) = x @ concat (map (\<lambda>y. '','' @ y) xs)"
  by (induction xs arbitrary: x) simp_all

text \<open>
  Claim C8. \<open>getStringList\<close> returns \<open>[]\<close> for the empty list, and for objects
  named N1, ..., Nk the string \<open>[FreeCAD.ActiveDocument.N1,...,FreeCAD.ActiveDocument.Nk]\<close>,
  the names in input order and separated by single commas.
\<close>

theorem getStringList_spec:
  fixes objects :: "('s, 'm) docobj list"
  shows "getStringList ([] :: ('s, 'm) docobj list) = ''[]'' \<and>
         getStringList objects = string_list_spec (map Name objects)"
proof
  show "getStringList [] = ''[]''"
    by (simp add: getStringList_def)
next
  show "getStringList objects = string_list_spec (map Name objects)"
  proof (cases objects)
    case Nil
    then show ?thesis
      by (simp add: getStringList_def string_list_spec_def)
  next
    case (Cons ob rest)
    have "getStringList_loop ''['' (ob # rest) =
            (''['' @ ''FreeCAD.ActiveDocument.'' @ Name ob)
              @ concat (map (\<lambda>ob. '','' @ ''FreeCAD.ActiveDocument.'' @ Name ob) rest)"
      using getStringList_loop_started [of "''['' @ ''FreeCAD.ActiveDocument.'' @ Name ob" rest]
      by simp
    then show ?thesis
      using Cons
      by (simp add: getStringList_def string_list_spec_def comma_separated_Cons
          comp_def del: comma_separated.simps)
  qed
qed

theorem getStringList_spec_witness:
  "getStringList [plain ''Wall'' ''Wall'' :: (unit, unit) docobj, plain ''Box001'' ''Part'',
      plain ''W'' ''Window'']
     = ''[FreeCAD.ActiveDocument.Wall,FreeCAD.ActiveDocument.Box001,FreeCAD.ActiveDocument.W]''"
  using getStringList_spec
    [of "[plain ''Wall'' ''Wall'' :: (unit, unit) docobj, plain ''Box001'' ''Part'',
      plain ''W'' ''Window'']"]
  by (simp add: string_list_spec_def plain_def)

subsection \<open>pruneIncluded\<close>

lemma always_kept_toplevel:
  "always_kept st obj \<Longrightarrow> is_toplevel st objectslist newlist strict obj"
  by (auto simp: always_kept_def is_toplevel_def)

lemma pruneIncluded_loop_shape:
  "\<exists>ys. fst (pruneIncluded_loop st all strict silent (newlist, console) objs) = newlist @ ys
        \<and> subseq ys objs
        \<and> filter (always_kept st) ys = filter (always_kept st) objs"
proof (induction objs arbitrary: newlist console)
  case Nil
  then show ?case by simp
next
  case (Cons obj rest)
  show ?case
  proof (cases "is_toplevel st all newlist strict obj")
    case True
    from Cons.IH [of "newlist @ [obj]" console] obtain ys where
      ys: "fst (pruneIncluded_loop st all strict silent (newlist @ [obj], console) rest)
             = (newlist @ [obj]) @ ys"
        "subseq ys rest" "filter (always_kept st) ys = filter (always_kept st) rest"
      by blast
    have "fst (pruneIncluded_loop st all strict silent (newlist, console) (obj # rest))
            = newlist @ (obj # ys)"
      using True ys(1) by simp
    moreover have "subseq (obj # ys) (obj # rest)"
      using ys(2) by simp
    moreover have "filter (always_kept st) (obj # ys) = filter (always_kept st) (obj # rest)"
      using ys(3) by simp
    ultimately show ?thesis by blast
  next
    case False
    then have nk: "\<not> always_kept st obj"
      using always_kept_toplevel by blast
    define console' where
      "console' = (if \<not> silent then console @ [''pruning '' @ Label (st obj) @ [CHR 0x0A]]
                   else console)"
    from Cons.IH [of newlist console'] obtain ys where
      ys: "fst (pruneIncluded_loop st all strict silent (newlist, console') rest) = newlist @ ys"
        "subseq ys rest" "filter (always_kept st) ys = filter (always_kept st) rest"
      by blast
    have "fst (pruneIncluded_loop st all strict silent (newlist, console) (obj # rest))
            = newlist @ ys"
      using False ys(1) by (cases silent) (simp_all add: console'_def)
    moreover have "subseq ys (obj # rest)"
      using ys(2) by (rule list_emb_Cons)
    moreover have "filter (always_kept st) ys = filter (always_kept st) (obj # rest)"
      using ys(3) nk by simp
    ultimately show ?thesis by blast
  qed
qed

text \<open>
  Claim C10. \<open>pruneIncluded\<close> returns a subsequence of its input: every object of the
  result occurs in the input, in the same relative order. Every input object that is not
  derived from \<^verbatim>\<open>Part::Feature\<close>, or whose type is Window, Clone, Pipe, Rebar or Roof,
  is retained whatever its parents are: restricted to those objects, input and result are
  the same list.
\<close>

theorem pruneIncluded_subseq_keeps:
  "subseq (pruneIncluded st objectslist strict silent) objectslist
   \<and> set (pruneIncluded st objectslist strict silent) \<subseteq> set objectslist
   \<and> filter (always_kept st) (pruneIncluded st objectslist strict silent)
        = filter (always_kept st) objectslist
   \<and> (obj \<in> set objectslist \<and> always_kept st obj
        \<longrightarrow> obj \<in> set (pruneIncluded st objectslist strict silent))"
proof -
  obtain ys where
    ys: "pruneIncluded st objectslist strict silent = ys" "subseq ys objectslist"
      "filter (always_kept st) ys = filter (always_kept st) objectslist"
    using pruneIncluded_loop_shape [of st objectslist strict silent "[]" "[]" objectslist]
    by (auto simp: pruneIncluded_def)
  have sub: "set ys \<subseteq> set objectslist"
    using ys(2) by (auto elim: list_emb_set)
  have "obj \<in> set objectslist \<and> always_kept st obj \<longrightarrow> obj \<in> set ys"
  proof
    assume a: "obj \<in> set objectslist \<and> always_kept st obj"
    then have "obj \<in> set (filter (always_kept st) objectslist)" by simp
    then have "obj \<in> set (filter (always_kept st) ys)" using ys(3) by simp
    then show "obj \<in> set ys" by simp
  qed
  then show ?thesis
    using ys sub by simp
qed

theorem pruneIncluded_subseq_keeps_witness:
  "pruneIncluded prune_doc [0, 1, 2, 3] False True = [0, 2, 3]
   \<and> subseq [0, 2, 3] [0, 1, 2, 3::nat]
   \<and> always_kept prune_doc 2 \<and> always_kept prune_doc 3 \<and> \<not> always_kept prune_doc 1
   \<and> 2 \<in> set (pruneIncluded prune_doc [0, 1, 2, 3] False True)"
proof -
  have run: "pruneIncluded prune_doc [0, 1, 2, 3] False True = [0, 2, 3]"
    by (simp add: pruneIncluded_def is_toplevel_def parent_step_def prune_doc_def
        plain_def isDerivedFrom_def)
  have kept: "always_kept prune_doc 2 \<and> always_kept prune_doc 3 \<and> \<not> always_kept prune_doc 1"
    by (simp add: always_kept_def prune_doc_def plain_def isDerivedFrom_def)
  show ?thesis
    using pruneIncluded_subseq_keeps [of prune_doc "[0, 1, 2, 3]" False True 2] run kept
    by simp
qed

subsection \<open>makeFace\<close>

lemma find_ext_unchanged:
  "\<forall>w\<in>set ws. DiagonalLength w \<le> m \<Longrightarrow> find_ext (e, m) ws = (e, m)"
  by (induction ws) auto

lemma find_ext_first_largest:
  "\<exists>w\<in>set ws. DiagonalLength w > m \<Longrightarrow>
   fst (find_ext (e, m) ws) = Some (ws ! exterior_index ws)"
proof (induction ws arbitrary: e m)
  case Nil
  then show ?case by simp
next
  case (Cons w ws)
  show ?case
  proof (cases "\<exists>v\<in>set ws. DiagonalLength v > max m (DiagonalLength w)")
    case True
    then obtain v where v: "v \<in> set ws" "DiagonalLength v > max m (DiagonalLength w)" by blast
    have ne: "ws \<noteq> []" using v by auto
    have "Max (set (map DiagonalLength ws)) \<ge> DiagonalLength v"
      using v(1) by simp
    then have gt: "Max (set (map DiagonalLength ws)) > DiagonalLength w"
      using v(2) by simp
    have M: "largest_diagonal (w # ws) = largest_diagonal ws"
      using gt ne by (simp add: largest_diagonal_def max_def)
    have idx: "exterior_index (w # ws) = Suc (exterior_index ws)"
      using gt M by (simp add: exterior_index_def) (simp add: largest_diagonal_def)
    have "fst (find_ext (e, m) (w # ws)) = Some (ws ! exterior_index ws)"
    proof (cases "DiagonalLength w > m")
      case True
      then show ?thesis
        using Cons.IH [of "DiagonalLength w" "Some w"] v by auto
    next
      case False
      then show ?thesis
        using Cons.IH [of m e] v by auto
    qed
    then show ?thesis using idx by simp
  next
    case False
    then have le: "\<forall>v\<in>set ws. DiagonalLength v \<le> max m (DiagonalLength w)" by auto
    from Cons.prems False have wm: "DiagonalLength w > m" by (auto simp: max_def split: if_splits)
    then have le': "\<forall>v\<in>set ws. DiagonalLength v \<le> DiagonalLength w" using le by auto
    have M: "largest_diagonal (w # ws) = DiagonalLength w"
      using le' by (cases "ws = []") (auto simp: largest_diagonal_def max_def intro: antisym)
    have idx: "exterior_index (w # ws) = 0"
      using M by (simp add: exterior_index_def)
    show ?thesis
      using wm idx find_ext_unchanged [OF le'] by simp
  qed
qed

lemma takeWhile_stops:
  assumes "v \<in> set xs" "\<not> P v"
  shows "length (takeWhile P xs) < length xs"
proof -
  have "takeWhile P xs \<noteq> xs"
    using assms by (auto simp: takeWhile_eq_all_conv)
  moreover have "takeWhile P xs @ dropWhile P xs = xs" by simp
  ultimately have "dropWhile P xs \<noteq> []"
    by (cases "dropWhile P xs") auto
  then have "length (takeWhile P xs) < length (takeWhile P xs) + length (dropWhile P xs)"
    by simp
  also have "\<dots> = length (takeWhile P xs @ dropWhile P xs)"
    by (simp only: length_append)
  also have "\<dots> = length xs"
    by (simp only: takeWhile_dropWhile_id)
  finally show ?thesis .
qed

lemma takeWhile_before:
  assumes "j < length (takeWhile P xs)"
  shows "P (xs ! j)"
proof -
  have "takeWhile P xs ! j \<in> set (takeWhile P xs)"
    using assms by simp
  then have "P (takeWhile P xs ! j)"
    by (auto dest: set_takeWhileD)
  then show ?thesis
    using assms by (simp add: takeWhile_nth)
qed

lemma exterior_index_props:
  assumes "wires \<noteq> []"
  shows "exterior_index wires < length wires"
    and "DiagonalLength (wires ! exterior_index wires) = largest_diagonal wires"
    and "\<forall>j < exterior_index wires. DiagonalLength (wires ! j) < largest_diagonal wires"
    and "\<forall>w \<in> set wires. DiagonalLength w \<le> largest_diagonal wires"
proof -
  have "largest_diagonal wires \<in> set (map DiagonalLength wires)"
    unfolding largest_diagonal_def using assms by (intro Max_in) auto
  then obtain v where v: "v \<in> set wires" "DiagonalLength v = largest_diagonal wires" by auto
  show 1: "exterior_index wires < length wires"
    unfolding exterior_index_def
    by (rule takeWhile_stops [of v]) (use v in simp_all)
  show "DiagonalLength (wires ! exterior_index wires) = largest_diagonal wires"
    using 1 nth_length_takeWhile [of "\<lambda>w. DiagonalLength w \<noteq> largest_diagonal wires" wires]
    unfolding exterior_index_def by simp
  show 4: "\<forall>w \<in> set wires. DiagonalLength w \<le> largest_diagonal wires"
    unfolding largest_diagonal_def by simp
  show "\<forall>j < exterior_index wires. DiagonalLength (wires ! j) < largest_diagonal wires"
  proof (intro allI impI)
    fix j assume j: "j < exterior_index wires"
    then have "DiagonalLength (wires ! j) \<noteq> largest_diagonal wires"
      unfolding exterior_index_def by (rule takeWhile_before)
    moreover have "DiagonalLength (wires ! j) \<le> largest_diagonal wires"
      using 4 j 1 by simp
    ultimately show "DiagonalLength (wires ! j) < largest_diagonal wires" by simp
  qed
qed

lemma remove1_first_occurrence:
  "i < length ws \<Longrightarrow> \<forall>j<i. ws ! j \<noteq> ws ! i \<Longrightarrow> remove1 (ws ! i) ws = take i ws @ drop (Suc i) ws"
proof (induction ws arbitrary: i)
  case Nil
  then show ?case by simp
next
  case (Cons w ws)
  show ?case
  proof (cases i)
    case 0
    then show ?thesis by simp
  next
    case (Suc k)
    have "(w # ws) ! 0 \<noteq> (w # ws) ! i" using Cons.prems(2) Suc by blast
    then have "w \<noteq> ws ! k" using Suc by simp
    moreover have "\<forall>j<k. ws ! j \<noteq> ws ! k"
    proof (intro allI impI)
      fix j assume "j < k"
      then have "(w # ws) ! Suc j \<noteq> (w # ws) ! i" using Cons.prems(2) Suc by blast
      then show "ws ! j \<noteq> ws ! k" using Suc by simp
    qed
    ultimately show ?thesis
      using Cons.IH [of k] Cons.prems(1) Suc by simp
  qed
qed

lemma foldl_cut_one_Inl: "foldl (cut_one K) (Inl e) ws = Inl e"
  by (induction ws) (simp_all add: cut_one_def)

lemma cut_holes_foldl:
  "snd (cut_holes K mf ws calls) = foldl (cut_one K) (Inr mf) ws"
  by (induction ws arbitrary: mf calls)
     (auto simp: cut_one_def foldl_cut_one_Inl split: sum.splits)

lemma cut_holes_calls:
  "prefix (fst (cut_holes K mf ws calls)) (calls @ map (\<lambda>w. [w]) ws)
   \<and> (\<forall>r. snd (cut_holes K mf ws calls) = Inr r \<longrightarrow>
         fst (cut_holes K mf ws calls) = calls @ map (\<lambda>w. [w]) ws)"
proof (induction ws arbitrary: mf calls)
  case Nil
  then show ?case by simp
next
  case (Cons w ws)
  show ?case
  proof (cases "Part_Face K [w]")
    case (Inl e)
    then show ?thesis by simp
  next
    case (Inr f)
    show ?thesis
    proof (cases "cut K mf f")
      case (Inl e)
      then show ?thesis using Inr by simp
    next
      case r: (Inr mf')
      then show ?thesis using Inr Cons.IH [of mf' "calls @ [[w]]"] by simp
    qed
  qed
qed

lemma makeFace_many:
  assumes "length wires \<ge> 2" "fst (find_ext (None, 0) wires) = Some ext" "method \<noteq> 1"
  shows "makeFace K (Many wires) method False =
     (case Part_Face K [ext] of
        Inl e \<Rightarrow> ([[ext]], Inl e)
      | Inr mf \<Rightarrow>
          (case cut_holes K mf (remove1 ext wires) [[ext]] of
             (calls, Inl e) \<Rightarrow> (calls, Inl e)
           | (calls, Inr mf') \<Rightarrow>
               (case Faces K mf' of
                  [] \<Rightarrow> (calls, Inl IndexError)
                | f # _ \<Rightarrow> (calls, Inr f))))"
proof -
  obtain a b rest where w: "wires = a # b # rest"
    using assms(1) by (cases wires; cases "tl wires") auto
  show ?thesis
    using assms(2,3) unfolding w makeFace_def
    by (simp add: Let_def del: find_ext.simps remove1.simps)
qed

text \<open>
  Claim C1, as stated: for every list of two or more wires \<open>makeFace\<close> selects the
  first wire of largest bounding-box diagonal, removes it and cuts the faces of the others
  from its face. It fails on two wires whose bounding boxes have the diagonal 0: no wire is
  longer than the initial \<open>max_length = 0\<close>, \<open>ext\<close> stays \<open>None\<close>, and removing it
  from the list raises ValueError before any face is built, where the claim has the face
  of the first wire cut by the second.
\<close>

theorem makeFace_zero_diagonals_counterexample:
  "makeFace sym_kernel (Many [degenerate 1, degenerate 2]) 2 False = ([], Inl ValueError)
   \<and> exterior_index [degenerate 1, degenerate 2] = 0
   \<and> face_with_holes sym_kernel (degenerate 1) [degenerate 2]
       = Inr (SCut (SFace [degenerate 1]) (SFace [degenerate 2]))
   \<and> snd (makeFace sym_kernel (Many [degenerate 1, degenerate 2]) 2 False)
       \<noteq> face_with_holes sym_kernel
           ([degenerate 1, degenerate 2] ! exterior_index [degenerate 1, degenerate 2])
           (take (exterior_index [degenerate 1, degenerate 2]) [degenerate 1, degenerate 2]
              @ drop (Suc (exterior_index [degenerate 1, degenerate 2]))
                  [degenerate 1, degenerate 2])"
proof -
  have run: "makeFace sym_kernel (Many [degenerate 1, degenerate 2]) 2 False
               = ([], Inl ValueError)"
    by (simp add: makeFace_def degenerate_def)
  have idx: "exterior_index [degenerate 1, degenerate 2] = 0"
    by (simp add: exterior_index_def largest_diagonal_def degenerate_def)
  have spec: "face_with_holes sym_kernel (degenerate 1) [degenerate 2]
                = Inr (SCut (SFace [degenerate 1]) (SFace [degenerate 2]))"
    by (simp add: face_with_holes_def cut_one_def sym_kernel_def)
  have differs:
    "snd (makeFace sym_kernel (Many [degenerate 1, degenerate 2]) 2 False)
       \<noteq> face_with_holes sym_kernel
           ([degenerate 1, degenerate 2] ! exterior_index [degenerate 1, degenerate 2])
           (take (exterior_index [degenerate 1, degenerate 2]) [degenerate 1, degenerate 2]
              @ drop (Suc (exterior_index [degenerate 1, degenerate 2]))
                  [degenerate 1, degenerate 2])"
    unfolding idx run using spec by simp
  show ?thesis
    by (intro conjI run idx spec differs)
qed

text \<open>
  Claim C1, amended: for every list of two or more wires of which at least one has a
  bounding box of positive diagonal, \<open>makeFace\<close> with the default method 2 selects as
  exterior boundary the first wire, in list order, whose diagonal is the largest of all,
  removes it from the list, and treats every remaining wire as a hole: a face is built on
  the exterior wire, the face of each hole is cut from it in turn, and the first face of
  the final cut is returned. An exception of the kernel ends the run; the faces built are
  the exterior's, then the holes' in list order.
\<close>

theorem makeFace_exterior_and_holes:
  assumes "length wires \<ge> 2" and "\<exists>w\<in>set wires. DiagonalLength w > 0"
  shows "(let i = exterior_index wires; ext = wires ! i;
              holes = take i wires @ drop (Suc i) wires
          in i < length wires
           \<and> DiagonalLength ext = largest_diagonal wires
           \<and> (\<forall>w\<in>set wires. DiagonalLength w \<le> DiagonalLength ext)
           \<and> (\<forall>j<i. DiagonalLength (wires ! j) < DiagonalLength ext)
           \<and> snd (makeFace K (Many wires) 2 False) = face_with_holes K ext holes
           \<and> prefix (fst (makeFace K (Many wires) 2 False)) ([ext] # map (\<lambda>w. [w]) holes)
           \<and> (\<forall>f. snd (makeFace K (Many wires) 2 False) = Inr f \<longrightarrow>
                 fst (makeFace K (Many wires) 2 False) = [ext] # map (\<lambda>w. [w]) holes))"
proof -
  define i where "i = exterior_index wires"
  define ext where "ext = wires ! i"
  define holes where "holes = take i wires @ drop (Suc i) wires"
  have ne: "wires \<noteq> []" using assms(1) by auto
  note props = exterior_index_props [OF ne, folded i_def]
  have i: "i < length wires" by (rule props(1))
  have mx: "DiagonalLength ext = largest_diagonal wires"
    unfolding ext_def by (rule props(2))
  have ub: "\<forall>w\<in>set wires. DiagonalLength w \<le> DiagonalLength ext"
    using props(4) mx by simp
  have before: "\<forall>j<i. DiagonalLength (wires ! j) < DiagonalLength ext"
    using props(3) mx by simp
  have found: "fst (find_ext (None, 0) wires) = Some ext"
    unfolding ext_def i_def by (rule find_ext_first_largest [OF assms(2)])
  have "\<forall>j<i. wires ! j \<noteq> wires ! i"
    using before unfolding ext_def by auto
  then have rem: "remove1 ext wires = holes"
    unfolding ext_def holes_def using i by (rule remove1_first_occurrence [rotated])
  note run = makeFace_many [OF assms(1) found, of 2 K, unfolded rem, simplified]
  have res: "snd (makeFace K (Many wires) 2 False) = face_with_holes K ext holes"
  proof (cases "Part_Face K [ext]")
    case (Inl e)
    then show ?thesis
      by (simp add: run face_with_holes_def foldl_cut_one_Inl)
  next
    case (Inr mf)
    have "snd (cut_holes K mf holes [[ext]]) = foldl (cut_one K) (Inr mf) holes"
      by (rule cut_holes_foldl)
    then show ?thesis
      using Inr
      by (cases "cut_holes K mf holes [[ext]]")
         (auto simp: run face_with_holes_def split: sum.splits list.splits)
  qed
  have log: "prefix (fst (makeFace K (Many wires) 2 False)) ([ext] # map (\<lambda>w. [w]) holes)
     \<and> (\<forall>f. snd (makeFace K (Many wires) 2 False) = Inr f \<longrightarrow>
                 fst (makeFace K (Many wires) 2 False) = [ext] # map (\<lambda>w. [w]) holes)"
  proof (cases "Part_Face K [ext]")
    case (Inl e)
    then show ?thesis by (simp add: run)
  next
    case (Inr mf)
    show ?thesis
      using Inr cut_holes_calls [of K mf holes "[[ext]]"]
      by (cases "cut_holes K mf holes [[ext]]")
         (auto simp: run split: sum.splits list.splits)
  qed
  show ?thesis
    using i mx ub before res log
    unfolding Let_def i_def [symmetric] ext_def [symmetric] holes_def [symmetric]
    by blast
qed

theorem makeFace_exterior_and_holes_witness:
  "length [rectangle 1 1, rectangle 2 3, rectangle 3 3, rectangle 4 2] \<ge> 2
   \<and> 0 < DiagonalLength (rectangle 2 3)
   \<and> exterior_index [rectangle 1 1, rectangle 2 3, rectangle 3 3, rectangle 4 2] = 1
   \<and> makeFace sym_kernel
         (Many [rectangle 1 1, rectangle 2 3, rectangle 3 3, rectangle 4 2]) 2 False
       = ([[rectangle 2 3], [rectangle 1 1], [rectangle 3 3], [rectangle 4 2]],
          Inr (SCut (SCut (SCut (SFace [rectangle 2 3]) (SFace [rectangle 1 1]))
                  (SFace [rectangle 3 3])) (SFace [rectangle 4 2])))"
proof -
  define ws where "ws = [rectangle 1 1, rectangle 2 3, rectangle 3 3, rectangle 4 2]"
  have pos: "\<exists>w\<in>set ws. DiagonalLength w > 0"
    by (simp add: ws_def rectangle_def)
  have len: "length ws \<ge> 2"
    by (simp add: ws_def)
  have idx: "exterior_index ws = 1"
    by (simp add: ws_def exterior_index_def largest_diagonal_def rectangle_def)
  have ext: "ws ! 1 = rectangle 2 3"
    by (simp add: ws_def)
  have holes: "take 1 ws @ drop (Suc 1) ws = [rectangle 1 1, rectangle 3 3, rectangle 4 2]"
    by (simp add: ws_def)
  have spec: "face_with_holes sym_kernel (rectangle 2 3)
                [rectangle 1 1, rectangle 3 3, rectangle 4 2]
              = Inr (SCut (SCut (SCut (SFace [rectangle 2 3]) (SFace [rectangle 1 1]))
                  (SFace [rectangle 3 3])) (SFace [rectangle 4 2]))"
    by (simp add: face_with_holes_def cut_one_def sym_kernel_def)
  note t = makeFace_exterior_and_holes [OF len pos, of sym_kernel,
      unfolded Let_def idx ext holes spec]
  have res: "snd (makeFace sym_kernel (Many ws) 2 False)
               = Inr (SCut (SCut (SCut (SFace [rectangle 2 3]) (SFace [rectangle 1 1]))
                  (SFace [rectangle 3 3])) (SFace [rectangle 4 2]))"
    using t by blast
  have calls: "fst (makeFace sym_kernel (Many ws) 2 False)
               = [[rectangle 2 3], [rectangle 1 1], [rectangle 3 3], [rectangle 4 2]]"
    using t res by simp
  have "0 < DiagonalLength (rectangle 2 3)"
    by (simp add: rectangle_def)
  then show ?thesis
    using len idx res calls unfolding ws_def by (simp add: prod_eq_iff)
qed

text \<open>
  Claim C9. \<open>makeFace\<close> raises an exception instead of returning a face whenever its
  argument is a single wire, or a list of one wire, and that wire has fewer than three
  vertexes; for such an input no \<open>Part.Face\<close> is constructed (the list of calls is
  empty), whatever the kernel, the method and the clean-up flag.
\<close>

theorem makeFace_degenerate_raises:
  assumes "arg = Single w \<or> arg = Many [w]" and "length (Vertexes w) < 3"
  shows "makeFace K arg method cleanup = ([], Inl RuntimeError)"
  using assms by (auto simp: makeFace_def)

theorem makeFace_degenerate_raises_witness:
  "length (Vertexes (segment 7)) < 3
   \<and> makeFace sym_kernel (Single (segment 7)) 2 False = ([], Inl RuntimeError)
   \<and> makeFace sym_kernel (Many [segment 7]) 2 False = ([], Inl RuntimeError)"
proof -
  have short: "length (Vertexes (segment 7)) < 3"
    by (simp add: segment_def)
  show ?thesis
    using makeFace_degenerate_raises [of "Single (segment 7)" "segment 7" sym_kernel 2 False]
      makeFace_degenerate_raises [of "Many [segment 7]" "segment 7" sym_kernel 2 False] short
    by simp
qed

subsection \<open>getExtrusionData\<close>

lemma build_faces_Some:
  "build_faces acc fs = Some r \<longleftrightarrow>
     (\<forall>f\<in>set fs. normalAt00 f \<noteq> None) \<and> r = acc @ map (\<lambda>f. (f, the (normalAt00 f))) fs"
  by (induction fs arbitrary: acc) (auto split: option.splits)

lemma in_find_pairs:
  "(i1, i2) \<in> set (find_pairs ga faces) \<longleftrightarrow>
     i1 < length faces \<and> i2 < length faces
     \<and> hashCode (fst (faces ! i1)) \<noteq> hashCode (fst (faces ! i2))
     \<and> round4 (ga (snd (faces ! i1)) (snd (faces ! i2))) = 31416"
  by (auto simp: find_pairs_def split: if_splits)



lemma with_normals_nth:
  assumes "\<forall>f\<in>set fs. normalAt00 f \<noteq> None" "i < length fs"
  shows "fst (with_normals fs ! i) = fs ! i"
    and "normalAt00 (fs ! i) = Some (snd (with_normals fs ! i))"
  using assms by (auto simp: with_normals_def)

lemma length_with_normals [simp]: "length (with_normals fs) = length fs"
  by (simp add: with_normals_def)

lemma pairs_are_opposite:
  assumes all: "\<forall>f\<in>set fs. normalAt00 f \<noteq> None"
    and mem: "(i1, i2) \<in> set (find_pairs ga (with_normals fs))"
  shows "i1 < length fs \<and> i2 < length fs \<and> i1 \<noteq> i2 \<and> opposite_normals ga (fs ! i1) (fs ! i2)"
proof -
  from mem have b: "i1 < length fs" "i2 < length fs"
    and h: "hashCode (fst (with_normals fs ! i1)) \<noteq> hashCode (fst (with_normals fs ! i2))"
    and r: "round4 (ga (snd (with_normals fs ! i1)) (snd (with_normals fs ! i2))) = 31416"
    by (auto simp: in_find_pairs)
  from h have "i1 \<noteq> i2" by auto
  moreover have "opposite_normals ga (fs ! i1) (fs ! i2)"
    using r with_normals_nth(2) [OF all b(1)] with_normals_nth(2) [OF all b(2)]
    by (simp add: opposite_normals_def)
  ultimately show ?thesis using b by simp
qed



lemma getExtrusionData_Some:
  assumes "getExtrusionData ga sb lth sh sm = Some r"
  shows "\<not> isNull sh" "Solids sh \<noteq> []" "length (shape_Faces sh) \<ge> 3"
    "\<forall>f\<in>set (shape_Faces sh). normalAt00 f \<noteq> None"
    "find_pairs ga (with_normals (shape_Faces sh)) \<noteq> []"
    "find_valids ga sb (with_normals (shape_Faces sh))
       (find_pairs ga (with_normals (shape_Faces sh))) \<noteq> []"
    "r = hd (sort_key (sort_value sb lth sm)
          (find_valids ga sb (with_normals (shape_Faces sh))
             (find_pairs ga (with_normals (shape_Faces sh)))))"
  using assms
  by (auto simp: getExtrusionData_def build_faces_Some with_normals_def Let_def
      split: if_splits option.splits)

lemma round4_straight: "round4 straight_angle = 31416"
proof -
  have "\<lfloor>(314159265 / 100000000 :: real) * 10000\<rfloor> = 31415" by simp
  then show ?thesis
    unfolding round4_def round_half_even_def Let_def straight_angle_def by simp
qed

lemma round4_right: "round4 right_angle = 15708"
proof -
  have "\<lfloor>(157079633 / 100000000 :: real) * 10000\<rfloor> = 15707" by simp
  then show ?thesis
    unfolding round4_def round_half_even_def Let_def right_angle_def by simp
qed

lemma round4_zero: "round4 0 = 0"
  unfolding round4_def round_half_even_def Let_def by simp

lemmas box_eval = getExtrusionData_def box_face_def find_pairs_def find_valids_def
      pair_ok_def candidate_def sort_value_def axis_angle_def round4_straight round4_right
      round4_zero vz_def vsub_def Let_def

lemma box_run: "getExtrusionData axis_angle vsub vlength box SortArea
   = Some (box_face 2 (0, 0, -1) (5, 10, 0) 200, (0, 0, 30))"
  by (simp add: box_def box_eval upt_rec [of _ "Suc _"] upt_rec [of _ "numeral _"])




lemma corner_no_pair: "\<not> has_opposite_pair axis_angle (shape_Faces corner)"
  by (simp add: has_opposite_pair_def corner_def opposite_normals_def box_face_def
      axis_angle_def round4_right round4_zero Ex_less_Suc)

text \<open>
  Claim C2. \<open>getExtrusionData\<close> returns \<open>None\<close> whenever the shape is null, has no
  solids, has fewer than three faces, or contains no pair of distinct faces whose normals
  are opposite (the angle between them rounds to 3.1416 at four decimal places); an
  extrusion is detected only through such a pair: a result other than \<open>None\<close> comes with
  one.
\<close>

theorem getExtrusionData_None:
  "(isNull sh \<or> Solids sh = [] \<or> length (shape_Faces sh) < 3
      \<or> \<not> has_opposite_pair ga (shape_Faces sh)
     \<longrightarrow> getExtrusionData ga sb lth sh sm = None)
   \<and> (\<forall>r. getExtrusionData ga sb lth sh sm = Some r \<longrightarrow>
         \<not> isNull sh \<and> Solids sh \<noteq> [] \<and> length (shape_Faces sh) \<ge> 3
         \<and> has_opposite_pair ga (shape_Faces sh))"
proof -
  have found: "has_opposite_pair ga (shape_Faces sh)"
    and basic: "\<not> isNull sh \<and> Solids sh \<noteq> [] \<and> length (shape_Faces sh) \<ge> 3"
    if "getExtrusionData ga sb lth sh sm = Some r" for r
  proof -
    note s = getExtrusionData_Some [OF that]
    from s(5) obtain i1 i2 where "(i1, i2) \<in> set (find_pairs ga (with_normals (shape_Faces sh)))"
      by (cases "find_pairs ga (with_normals (shape_Faces sh))") auto
    from pairs_are_opposite [OF s(4) this]
    show "has_opposite_pair ga (shape_Faces sh)"
      unfolding has_opposite_pair_def by blast
    show "\<not> isNull sh \<and> Solids sh \<noteq> [] \<and> length (shape_Faces sh) \<ge> 3"
      using s(1-3) by simp
  qed
  have "getExtrusionData ga sb lth sh sm = None"
    if "isNull sh \<or> Solids sh = [] \<or> length (shape_Faces sh) < 3
          \<or> \<not> has_opposite_pair ga (shape_Faces sh)"
  proof (cases "getExtrusionData ga sb lth sh sm")
    case None
    then show ?thesis .
  next
    case (Some r)
    then show ?thesis using found [OF Some] basic [OF Some] that by auto
  qed
  then show ?thesis using found basic by blast
qed

theorem getExtrusionData_None_witness:
  "\<not> has_opposite_pair axis_angle (shape_Faces corner)
   \<and> getExtrusionData axis_angle vsub vlength corner SortArea = None
   \<and> getExtrusionData axis_angle vsub vlength box SortArea
       = Some (box_face 2 (0, 0, -1) (5, 10, 0) 200, (0, 0, 30))
   \<and> has_opposite_pair axis_angle (shape_Faces box)"
proof -
  have none: "getExtrusionData axis_angle vsub vlength corner SortArea = None"
    using getExtrusionData_None [where sh=corner and ga=axis_angle and sb=vsub
        and lth=vlength and sm=SortArea] corner_no_pair by blast
  have pair: "has_opposite_pair axis_angle (shape_Faces box)"
    using getExtrusionData_None [where sh=box and ga=axis_angle and sb=vsub
        and lth=vlength and sm=SortArea] box_run by blast
  show ?thesis
    using corner_no_pair none box_run pair by blast
qed




subsection \<open>getCutVolume\<close>

lemma axis_fields:
  "BoundBox axis_kernel (TBox b) = b"
  "BoundBox_enlarge axis_kernel b d = \<lparr> XMin = XMin b - d, YMin = YMin b - d, ZMin = ZMin b - d,
                 XMax = XMax b + d, YMax = YMax b + d, ZMax = ZMax b + d \<rparr>"
  "face_CenterOfMass axis_kernel p = (5, 5, 0)"
  "face_normalAt axis_kernel p x y = (0, 0, 1)"
  "ParameterRange axis_kernel p = (0, 10, 0, 10)"
  "valueAt axis_kernel p x y = (x, y, 0)"
  "polygon_Face axis_kernel = TPoly"
  "extrude axis_kernel = TExtr"
  "shape_cut axis_kernel = TCut"
  "fuse axis_kernel = TFuse"
  "removeSplitter axis_kernel = TClean"
  by (simp_all add: axis_kernel_def)

lemma axis_u: "normalize axis_kernel (vsub (0, 0, 0) (10, 0, 0)) = (-1, 0, 0)"
  by (simp add: axis_kernel_def vsub_def)

lemma axis_v: "cross axis_kernel (-1, 0, 0) (0, 0, 1) = (0, 1, 0)"
  by (simp add: axis_kernel_def)

lemma axis_cut: "isCutPlane axis_kernel enlarged_block (5, 5, 0) (0, 0, 1)"
  by (simp add: axis_kernel_def enlarged_block_def corners_def dot_def vsub_def)

lemma reach_u: "reach axis_kernel (5, 5, 0) (-1, 0, 0) (corners enlarged_block) = 4"
  by (simp add: reach_def axis_kernel_def enlarged_block_def corners_def dot_def vsub_def smult_def)

lemma reach_v: "reach axis_kernel (5, 5, 0) (0, 1, 0) (corners enlarged_block) = 4"
  by (simp add: reach_def axis_kernel_def enlarged_block_def corners_def dot_def vsub_def smult_def)

lemma reach_w: "reach axis_kernel (5, 5, 0) (0, 0, 1) (corners enlarged_block) = 6"
  by (simp add: reach_def axis_kernel_def enlarged_block_def corners_def dot_def vsub_def smult_def)

lemma scale_u: "scaleTo axis_kernel (-1, 0, 0) 4 = (-4, 0, 0)"
  by (simp add: axis_kernel_def smult_def)

lemma scale_v: "scaleTo axis_kernel (0, 1, 0) 4 = (0, 4, 0)"
  by (simp add: axis_kernel_def smult_def)

lemma scale_w: "scaleTo axis_kernel (0, 0, 1) 6 = (0, 0, 6)"
  by (simp add: axis_kernel_def smult_def)

lemmas axis_steps = axis_fields axis_u axis_v reach_u reach_v reach_w scale_u scale_v scale_w
  vadd_def negative_def

lemma block_volumes:
  "cut_volumes axis_kernel TPlane enlarged_block False None
     = (cover, TExtr cover (0, 0, 6), TExtr cover (0, 0, -6))"
  unfolding cut_volumes_def Let_def by (simp add: axis_steps cover_def)

lemma block_volumes_clip:
  "cut_volumes axis_kernel TPlane enlarged_block True None
     = (TPlane,
        TClean (TFuse (TExtr cover (0, 0, 6))
                      (TCut (TExtr cover (0, 0, -6)) (TExtr TPlane (0, 0, -6)))),
        TExtr TPlane (0, 0, -6))"
  unfolding cut_volumes_def Let_def by (simp add: axis_steps cover_def)

lemma block_run:
  "getCutVolume axis_kernel ground_plane (Shapes [block]) clip depth
     = Some (cut_volumes axis_kernel TPlane enlarged_block clip depth)"
  unfolding getCutVolume_def Let_def
  by (simp add: ground_plane_def axis_fields block_def enlarged_block_def
      axis_cut [unfolded enlarged_block_def])

lemma block_above_run:
  "first_face ground_plane = Some TPlane
   \<and> \<not> isCutPlane axis_kernel (enlarged_box axis_kernel (shape_list (OneShape block_above)))
         (face_CenterOfMass axis_kernel TPlane) (face_normalAt axis_kernel TPlane 0 0)"
  by (simp add: first_face_def ground_plane_def enlarged_box_def shape_list_def
      block_above_def axis_kernel_def corners_def dot_def vsub_def)

lemma getCutVolume_unfold:
  "getCutVolume K cutplane shapes clip depth =
     (if shape_list shapes = [] then None
      else if cutplane_Faces cutplane = [] then None
      else case first_face cutplane of
             None \<Rightarrow> None
           | Some p \<Rightarrow>
               (if \<not> isCutPlane K (enlarged_box K (shape_list shapes))
                        (face_CenterOfMass K p) (face_normalAt K p 0 0)
                then None
                else Some (cut_volumes K p (enlarged_box K (shape_list shapes)) clip depth)))"
proof (cases "shape_list shapes")
  case Nil
  then show ?thesis
    by (simp add: getCutVolume_def shape_list_def)
next
  case (Cons s0 rest)
  have "foldl (\<lambda>bb sh. BoundBox_add K bb (BoundBox K sh)) (BoundBox K s0) rest
          = foldl (BoundBox_add K) (BoundBox K s0) (map (BoundBox K) rest)"
    by (simp add: foldl_map)
  then have "enlarged_box K (shape_list shapes)
          = BoundBox_enlarge K
              (foldl (\<lambda>bb sh. BoundBox_add K bb (BoundBox K sh)) (BoundBox K s0) rest) 1"
    using Cons by (simp add: enlarged_box_def)
  then show ?thesis
    using Cons unfolding getCutVolume_def first_face_def Let_def
    by (simp add: shape_list_def split: option.splits)
qed

lemma cut_volumes_shape:
  assumes "cut_volumes K p bb clip depth = (cf, cv, icv)"
  defines "n \<equiv> scaleTo K (face_normalAt K p 0 0)
              (reach K (face_CenterOfMass K p) (face_normalAt K p 0 0) (corners bb))"
  shows "icv = extrude K cf (negative n)"
    and "\<not> clip \<and> (depth = None \<or> depth = Some 0) \<longrightarrow> cv = extrude K cf n"
    and "clip \<longrightarrow> cf = p"
  using assms(1) unfolding n_def cut_volumes_def Let_def
  by (auto split: if_splits)

text \<open>
  Claim C4, as stated: whenever the result is not the triple of \<open>None\<close>, the cut volume
  is the returned cut face extruded along the plane normal. It fails with \<open>clip\<close> true:
  the face returned is the cut plane's own face, and the cut volume is the extrusion of
  the covering rectangle fused with what the plane's extrusion leaves of the rectangle's
  opposite extrusion.
\<close>

theorem getCutVolume_clip_counterexample:
  "getCutVolume axis_kernel ground_plane (Shapes [block]) True None
     = Some (TPlane,
             TClean (TFuse (TExtr cover (0, 0, 6))
                           (TCut (TExtr cover (0, 0, -6)) (TExtr TPlane (0, 0, -6)))),
             TExtr TPlane (0, 0, -6))
   \<and> scaleTo axis_kernel (face_normalAt axis_kernel TPlane 0 0)
         (reach axis_kernel (face_CenterOfMass axis_kernel TPlane)
            (face_normalAt axis_kernel TPlane 0 0) (corners enlarged_block)) = (0, 0, 6)
   \<and> TClean (TFuse (TExtr cover (0, 0, 6))
                     (TCut (TExtr cover (0, 0, -6)) (TExtr TPlane (0, 0, -6))))
       \<noteq> extrude axis_kernel TPlane (0, 0, 6)"
  by (simp add: block_run block_volumes_clip axis_fields reach_w scale_w)

text \<open>
  Claim C4, amended: \<open>getCutVolume\<close> returns the triple of \<open>None\<close> exactly when
  \<open>shapes\<close> is empty, when the cut plane has no faces, when extracting the cut plane's
  first face raises a geometry-kernel error, or when the enlarged bounding box of the
  shapes is not cut by the plane through that face's centre of mass along its normal; in
  every other case it returns a cut face, a cut volume and an inverse cut volume, the
  inverse volume being the returned face extruded against the plane normal; when \<open>clip\<close>
  is false and \<open>depth\<close> is unset or zero the cut volume is the returned face extruded
  along the plane normal, and when \<open>clip\<close> is true the returned face is the cut plane's
  first face.
\<close>

theorem getCutVolume_None_iff:
  "(getCutVolume K cutplane shapes clip depth = None \<longleftrightarrow>
      shape_list shapes = [] \<or> cutplane_Faces cutplane = [] \<or> first_face cutplane = None
      \<or> (\<exists>p. first_face cutplane = Some p
             \<and> \<not> isCutPlane K (enlarged_box K (shape_list shapes))
                    (face_CenterOfMass K p) (face_normalAt K p 0 0)))
   \<and> (\<forall>cf cv icv. getCutVolume K cutplane shapes clip depth = Some (cf, cv, icv) \<longrightarrow>
         (\<exists>p. first_face cutplane = Some p
            \<and> (let n = scaleTo K (face_normalAt K p 0 0)
                          (reach K (face_CenterOfMass K p) (face_normalAt K p 0 0)
                             (corners (enlarged_box K (shape_list shapes))))
               in icv = extrude K cf (negative n)
                \<and> (\<not> clip \<and> (depth = None \<or> depth = Some 0) \<longrightarrow> cv = extrude K cf n)
                \<and> (clip \<longrightarrow> cf = p))))"
proof (intro conjI allI impI)
  show "getCutVolume K cutplane shapes clip depth = None \<longleftrightarrow>
      shape_list shapes = [] \<or> cutplane_Faces cutplane = [] \<or> first_face cutplane = None
      \<or> (\<exists>p. first_face cutplane = Some p
             \<and> \<not> isCutPlane K (enlarged_box K (shape_list shapes))
                    (face_CenterOfMass K p) (face_normalAt K p 0 0))"
    unfolding getCutVolume_unfold by (auto split: option.splits)
next
  fix cf cv icv
  assume r: "getCutVolume K cutplane shapes clip depth = Some (cf, cv, icv)"
  then obtain p where p: "first_face cutplane = Some p"
    and v: "cut_volumes K p (enlarged_box K (shape_list shapes)) clip depth = (cf, cv, icv)"
    unfolding getCutVolume_unfold by (auto split: option.splits if_splits)
  show "\<exists>p. first_face cutplane = Some p
            \<and> (let n = scaleTo K (face_normalAt K p 0 0)
                          (reach K (face_CenterOfMass K p) (face_normalAt K p 0 0)
                             (corners (enlarged_box K (shape_list shapes))))
               in icv = extrude K cf (negative n)
                \<and> (\<not> clip \<and> (depth = None \<or> depth = Some 0) \<longrightarrow> cv = extrude K cf n)
                \<and> (clip \<longrightarrow> cf = p))"
    using p cut_volumes_shape [OF v] unfolding Let_def by blast
qed

theorem getCutVolume_None_iff_witness:
  "first_face ground_plane = Some TPlane
   \<and> \<not> isCutPlane axis_kernel (enlarged_box axis_kernel (shape_list (OneShape block_above)))
         (face_CenterOfMass axis_kernel TPlane) (face_normalAt axis_kernel TPlane 0 0)
   \<and> getCutVolume axis_kernel ground_plane (OneShape block_above) False None = None
   \<and> getCutVolume axis_kernel ground_plane (Shapes [block]) False None
       = Some (cover, TExtr cover (0, 0, 6), TExtr cover (0, 0, -6))"
proof -
  have "getCutVolume axis_kernel ground_plane (OneShape block_above) False None = None"
    using getCutVolume_None_iff [of axis_kernel ground_plane "OneShape block_above" False None]
      block_above_run by blast
  then show ?thesis
    using block_above_run by (simp add: block_run block_volumes)
qed

subsection \<open>addComponents\<close>















subsection \<open>removeComponents\<close>

text \<open>
  Claim C7 has the listed objects that are in \<open>host.Axes\<close> removed from \<open>host.Axes\<close>
  rather than added to \<open>host.Subtractions\<close>. The source removes them from the list it
  read from \<open>host.Axes\<close> and from the list of objects, and never assigns the list back:
  the axis system stays among the axes of the wall, and is not subtracted either. The
  same loop on an object that is not an axis of the host appends it to the subtractions.
\<close>

theorem removeComponents_axes_not_written_back:
  "DraftType (axis_wall_doc 0) = ''Wall'' \<and> Axes (axis_wall_doc 0) = Some [4]
   \<and> axes_loop ([4], [4]) [4] = ([], [])
   \<and> map_sum id (\<lambda>st'. (Axes (st' 0), Subtractions (st' 0)))
         (removeComponents False (ObjectList [4]) 0 axis_wall_doc)
       = Inr (Some [4], [])
   \<and> map_sum id (\<lambda>st'. (Axes (st' 0), Subtractions (st' 0)))
         (removeComponents False (ObjectList [1]) 0 axis_wall_doc)
       = Inr (Some [4], [1])"
  by (simp add: removeComponents_def remove_step_def detach_def as_list_def wall_like_def
      axis_wall_doc_def site_doc_def plain_def Let_def)

subsection \<open>meshToShape\<close>

lemma lab_makeFace:
  "snd (makeFace sym_kernel (Many [rectangle 2 1]) 2 False) = Inr (SFace [rectangle 2 1])"
  "snd (makeFace sym_kernel (Many [segment 7]) 2 False) = Inl RuntimeError"
  by (simp_all add: makeFace_def rectangle_def segment_def sym_kernel_def)

lemma lab_open:
  "getShapeFromMesh sym_kernel mesh_lab OpenMesh True (1 / 1000) False True = Inr (Some open_shell)"
  by (simp add: getShapeFromMesh_def slow_method_def mesh_lab_def lab_makeFace open_shell_def)

lemma lab_bad:
  "getShapeFromMesh sym_kernel mesh_lab BadMesh True (1 / 1000) False True = Inr None"
  by (simp add: getShapeFromMesh_def slow_method_def mesh_lab_def lab_makeFace)

lemma lab_closed:
  "getShapeFromMesh sym_kernel mesh_lab ClosedMesh True (1 / 1000) False True
     = Inr (Some closed_solid)"
  by (simp add: getShapeFromMesh_def fast_method_def mesh_lab_def triangle_def closed_solid_def)

lemma name_taken_iff:
  "name_taken d n \<longleftrightarrow> (\<exists>p\<in>objects_of slots_view d. name_of slots_view d p = n)"
  by (auto simp: name_taken_def slots_view_def list_ex_iff split: option.splits)

lemma slots_laws: "document_laws slots_view slots_api"
  unfolding document_laws_def
proof (intro conjI allI impI)
  fix d :: "('a, 'b) slots" and n
  show "objects_of slots_view (doc_removeObject slots_api d n)
          = {ob \<in> objects_of slots_view d. name_of slots_view d ob \<noteq> n}"
    by (auto simp: slots_view_def slots_api_def split: option.splits if_splits)
next
  fix d :: "('a, 'b) slots" and n ob
  assume "ob \<in> objects_of slots_view (doc_removeObject slots_api d n)"
  then show "name_of slots_view (doc_removeObject slots_api d n) ob = name_of slots_view d ob"
    by (auto simp: slots_view_def slots_api_def split: option.splits if_splits)
next
  fix d d' :: "('a, 'b) slots" and t n ob
  assume a: "doc_addObject slots_api d t n = (d', ob)"
  show "ob \<notin> objects_of slots_view d"
    using a by (auto simp: slots_view_def slots_api_def)
  show "objects_of slots_view d' = insert ob (objects_of slots_view d)"
    using a by (auto simp: slots_view_def slots_api_def less_Suc_eq)
  show "typeid_of slots_view d' ob = t"
    using a by (auto simp: slots_view_def slots_api_def plain_def)
  have nm: "name_of slots_view d' ob = (if name_taken d n then n @ ''001'' else n)"
    using a by (auto simp: slots_view_def slots_api_def plain_def)
  show "name_of slots_view d' ob = n"
    if "\<forall>p\<in>objects_of slots_view d. name_of slots_view d p \<noteq> n"
    using that nm name_taken_iff [of d n] by auto
  show "name_of slots_view d' ob \<noteq> n"
    if "\<exists>p\<in>objects_of slots_view d. name_of slots_view d p = n"
    using that nm name_taken_iff [of d n] by auto
next
  fix d :: "('a, 'b) slots" and ob s
  show "objects_of slots_view (set_Shape slots_api d ob s) = objects_of slots_view d"
    by (auto simp: slots_view_def slots_api_def)
  show "name_of slots_view (set_Shape slots_api d ob s) ob = name_of slots_view d ob"
    by (auto simp: slots_view_def slots_api_def split: option.splits)
  show "typeid_of slots_view (set_Shape slots_api d ob s) ob = typeid_of slots_view d ob"
    by (auto simp: slots_view_def slots_api_def split: option.splits)
  show "shape_of slots_view (set_Shape slots_api d ob s) ob = Some s"
    if "ob \<in> objects_of slots_view d"
    using that by (auto simp: slots_view_def slots_api_def split: option.splits)
next
  fix d :: "('a, 'b) slots" and ob c
  show "objects_of slots_view (set_ShapeColor slots_api d ob c) = objects_of slots_view d"
    by (auto simp: slots_view_def slots_api_def)
  show "name_of slots_view (set_ShapeColor slots_api d ob c) ob = name_of slots_view d ob"
    by (auto simp: slots_view_def slots_api_def split: option.splits)
  show "typeid_of slots_view (set_ShapeColor slots_api d ob c) ob = typeid_of slots_view d ob"
    by (auto simp: slots_view_def slots_api_def split: option.splits)
  show "shape_of slots_view (set_ShapeColor slots_api d ob c) ob = shape_of slots_view d ob"
    by (auto simp: slots_view_def slots_api_def split: option.splits)
  show "color_of slots_view (set_ShapeColor slots_api d ob c) ob = Some c"
    if "ob \<in> objects_of slots_view d"
    using that by (auto simp: slots_view_def slots_api_def split: option.splits)
qed

lemma law_remove:
  assumes "document_laws V D"
  shows "objects_of V (doc_removeObject D d n) = {ob \<in> objects_of V d. name_of V d ob \<noteq> n}"
    and "ob \<in> objects_of V (doc_removeObject D d n)
           \<Longrightarrow> name_of V (doc_removeObject D d n) ob = name_of V d ob"
  using assms unfolding document_laws_def by blast+

lemma law_add:
  assumes "document_laws V D" and "doc_addObject D d t n = (d', ob)"
  shows "ob \<notin> objects_of V d"
    and "objects_of V d' = insert ob (objects_of V d)"
    and "typeid_of V d' ob = t"
    and "(\<forall>p\<in>objects_of V d. name_of V d p \<noteq> n) \<Longrightarrow> name_of V d' ob = n"
    and "(\<exists>p\<in>objects_of V d. name_of V d p = n) \<Longrightarrow> name_of V d' ob \<noteq> n"
proof -
  from assms(1) have
    "\<forall>d t n d' ob. doc_addObject D d t n = (d', ob) \<longrightarrow>
        ob \<notin> objects_of V d
        \<and> objects_of V d' = insert ob (objects_of V d)
        \<and> typeid_of V d' ob = t
        \<and> ((\<forall>p\<in>objects_of V d. name_of V d p \<noteq> n) \<longrightarrow> name_of V d' ob = n)
        \<and> ((\<exists>p\<in>objects_of V d. name_of V d p = n) \<longrightarrow> name_of V d' ob \<noteq> n)"
    unfolding document_laws_def by (elim conjE)
  with assms(2) have *:
    "ob \<notin> objects_of V d
        \<and> objects_of V d' = insert ob (objects_of V d)
        \<and> typeid_of V d' ob = t
        \<and> ((\<forall>p\<in>objects_of V d. name_of V d p \<noteq> n) \<longrightarrow> name_of V d' ob = n)
        \<and> ((\<exists>p\<in>objects_of V d. name_of V d p = n) \<longrightarrow> name_of V d' ob \<noteq> n)"
    by blast
  from * show "ob \<notin> objects_of V d" by (elim conjE)
  from * show "objects_of V d' = insert ob (objects_of V d)" by (elim conjE)
  from * show "typeid_of V d' ob = t" by (elim conjE)
  from * show "(\<forall>p\<in>objects_of V d. name_of V d p \<noteq> n) \<Longrightarrow> name_of V d' ob = n"
    by (elim conjE) (erule (1) mp)
  from * show "(\<exists>p\<in>objects_of V d. name_of V d p = n) \<Longrightarrow> name_of V d' ob \<noteq> n"
    by (elim conjE) (erule (1) mp)
qed

lemma law_shape:
  assumes "document_laws V D"
  shows "objects_of V (set_Shape D d ob s) = objects_of V d"
    and "name_of V (set_Shape D d ob s) ob = name_of V d ob"
    and "typeid_of V (set_Shape D d ob s) ob = typeid_of V d ob"
    and "ob \<in> objects_of V d \<Longrightarrow> shape_of V (set_Shape D d ob s) ob = Some s"
  using assms unfolding document_laws_def by blast+

lemma law_color:
  assumes "document_laws V D"
  shows "objects_of V (set_ShapeColor D d ob c) = objects_of V d"
    and "name_of V (set_ShapeColor D d ob c) ob = name_of V d ob"
    and "typeid_of V (set_ShapeColor D d ob c) ob = typeid_of V d ob"
    and "shape_of V (set_ShapeColor D d ob c) ob = shape_of V d ob"
    and "ob \<in> objects_of V d \<Longrightarrow> color_of V (set_ShapeColor D d ob c) ob = Some c"
  using assms unfolding document_laws_def by blast+

lemma meshToShape_replaces:
  assumes laws: "document_laws V D"
    and solid: "Mesh obj = Some mesh"
      "getShapeFromMesh K M mesh fast tol flat cut' = Inr (Some solid)"
    and ok: "isClosed M solid" "isValid M solid"
  shows "\<exists>doc' new. meshToShape D K M obj mark fast tol flat cut' doc = Inr (doc', Some new)
           \<and> new \<in> objects_of V doc'
           \<and> typeid_of V doc' new = ''Part::Feature''
           \<and> shape_of V doc' new = Some solid
           \<and> objects_of V doc' = insert new {ob \<in> objects_of V doc. name_of V doc ob \<noteq> Name obj}
           \<and> name_of V doc' new = Name obj"
proof -
  define doc1 where "doc1 = doc_removeObject D doc (Name obj)"
  obtain doc2 new where add: "doc_addObject D doc1 ''Part::Feature'' (Name obj) = (doc2, new)"
    by (cases "doc_addObject D doc1 ''Part::Feature'' (Name obj)") blast
  define doc3 where "doc3 = set_Shape D doc2 new solid"
  have run: "meshToShape D K M obj mark fast tol flat cut' doc = Inr (doc3, Some new)"
    using solid ok add by (simp add: meshToShape_def doc1_def doc3_def)
  have o1: "objects_of V doc1 = {ob \<in> objects_of V doc. name_of V doc ob \<noteq> Name obj}"
    unfolding doc1_def by (rule law_remove(1) [OF laws])
  have free: "\<forall>p\<in>objects_of V doc1. name_of V doc1 p \<noteq> Name obj"
  proof
    fix p assume p: "p \<in> objects_of V doc1"
    then have "name_of V doc1 p = name_of V doc p"
      unfolding doc1_def by (rule law_remove(2) [OF laws])
    moreover from p o1 have "name_of V doc p \<noteq> Name obj" by simp
    ultimately show "name_of V doc1 p \<noteq> Name obj" by simp
  qed
  have o2: "objects_of V doc2 = insert new (objects_of V doc1)"
    by (rule law_add(2) [OF laws add])
  have in2: "new \<in> objects_of V doc2" using o2 by simp
  have "objects_of V doc3 = insert new {ob \<in> objects_of V doc. name_of V doc ob \<noteq> Name obj}"
    unfolding doc3_def using law_shape(1) [OF laws, of doc2 new solid] o2 o1 by simp
  moreover have "typeid_of V doc3 new = ''Part::Feature''"
    unfolding doc3_def using law_shape(3) [OF laws, of doc2 new solid] law_add(3) [OF laws add]
    by simp
  moreover have "shape_of V doc3 new = Some solid"
    unfolding doc3_def by (rule law_shape(4) [OF laws in2])
  moreover have "name_of V doc3 new = Name obj"
    unfolding doc3_def
    using law_shape(2) [OF laws, of doc2 new solid] law_add(4) [OF laws add free] by simp
  ultimately show ?thesis using run by simp
qed

lemma meshToShape_keeps:
  assumes laws: "document_laws V D"
    and orig: "orig \<in> objects_of V doc" "name_of V doc orig = Name obj"
    and solid: "Mesh obj = Some mesh"
      "getShapeFromMesh K M mesh fast tol flat cut' = Inr (Some solid)"
    and bad: "\<not> (isClosed M solid \<and> isValid M solid)"
  shows "\<exists>doc' new. meshToShape D K M obj mark fast tol flat cut' doc = Inr (doc', Some new)
           \<and> new \<in> objects_of V doc'
           \<and> typeid_of V doc' new = ''Part::Feature''
           \<and> shape_of V doc' new = Some solid
           \<and> new \<notin> objects_of V doc
           \<and> objects_of V doc' = insert new (objects_of V doc)
           \<and> name_of V doc' new \<noteq> Name obj
           \<and> (mark \<longrightarrow> color_of V doc' new = Some (1, 0, 0, 1))"
proof -
  obtain doc2 new where add: "doc_addObject D doc ''Part::Feature'' (Name obj) = (doc2, new)"
    by (cases "doc_addObject D doc ''Part::Feature'' (Name obj)") blast
  define doc3 where "doc3 = set_Shape D doc2 new solid"
  define doc4 where "doc4 = (if mark then set_ShapeColor D doc3 new (1, 0, 0, 1) else doc3)"
  have run: "meshToShape D K M obj mark fast tol flat cut' doc = Inr (doc4, Some new)"
    using solid bad add by (auto simp add: meshToShape_def doc3_def doc4_def)
  have taken: "\<exists>p\<in>objects_of V doc. name_of V doc p = Name obj"
    using orig by blast
  have o2: "objects_of V doc2 = insert new (objects_of V doc)"
    by (rule law_add(2) [OF laws add])
  have in2: "new \<in> objects_of V doc2" using o2 by simp
  have o3: "objects_of V doc3 = insert new (objects_of V doc)"
    unfolding doc3_def using law_shape(1) [OF laws, of doc2 new solid] o2 by simp
  have in3: "new \<in> objects_of V doc3" using o3 by simp
  have t3: "typeid_of V doc3 new = ''Part::Feature''"
    unfolding doc3_def using law_shape(3) [OF laws, of doc2 new solid] law_add(3) [OF laws add]
    by simp
  have s3: "shape_of V doc3 new = Some solid"
    unfolding doc3_def by (rule law_shape(4) [OF laws in2])
  have n3: "name_of V doc3 new \<noteq> Name obj"
    unfolding doc3_def
    using law_shape(2) [OF laws, of doc2 new solid] law_add(5) [OF laws add taken] by simp
  have "objects_of V doc4 = insert new (objects_of V doc)"
    unfolding doc4_def using o3 law_color(1) [OF laws, of doc3 new] by simp
  moreover have "typeid_of V doc4 new = ''Part::Feature''"
    unfolding doc4_def using t3 law_color(3) [OF laws, of doc3 new] by simp
  moreover have "shape_of V doc4 new = Some solid"
    unfolding doc4_def using s3 law_color(4) [OF laws, of doc3 new] by simp
  moreover have "name_of V doc4 new \<noteq> Name obj"
    unfolding doc4_def using n3 law_color(2) [OF laws, of doc3 new] by simp
  moreover have "mark \<longrightarrow> color_of V doc4 new = Some (1, 0, 0, 1)"
    unfolding doc4_def using law_color(5) [OF laws in3] by simp
  moreover have "new \<notin> objects_of V doc"
    by (rule law_add(1) [OF laws add])
  ultimately show ?thesis using run by simp
qed

lemma meshToShape_nothing:
  "Mesh obj = None \<Longrightarrow> meshToShape D K M obj mark fast tol flat cut' doc = Inr (doc, None)"
  "Mesh obj = Some mesh \<Longrightarrow> getShapeFromMesh K M mesh fast tol flat cut' = Inr None
     \<Longrightarrow> meshToShape D K M obj mark fast tol flat cut' doc = Inr (doc, None)"
  "Mesh obj = Some mesh \<Longrightarrow> getShapeFromMesh K M mesh fast tol flat cut' = Inl e
     \<Longrightarrow> meshToShape D K M obj mark fast tol flat cut' doc = Inl e"
  by (simp_all add: meshToShape_def)

lemma mesh_doc_view:
  "objects_of slots_view (mesh_doc m) = {0}"
  "name_of slots_view (mesh_doc m) 0 = ''Mesh''"
  "Name (mesh_object m) = ''Mesh''"
  "Mesh (mesh_object m) = Some m"
  by (auto simp: slots_view_def mesh_doc_def mesh_object_def plain_def)

lemma lab_closed_valid:
  "isClosed mesh_lab closed_solid" "isValid mesh_lab closed_solid"
  "\<not> isClosed mesh_lab open_shell"
  by (simp_all add: mesh_lab_def closed_solid_def open_shell_def)

text \<open>
  Claim C5, as stated: when a shape is obtained, the new feature is added under the
  original object's name, also when the original object is kept. It is not: the document
  that holds the mesh object \<open>Mesh\<close>, whose mesh gives an open shell, holds after the call
  the mesh object under its name \<open>Mesh\<close> and the new feature under the name \<open>Mesh001\<close>.
\<close>

theorem meshToShape_name_counterexample:
  "(case meshToShape slots_api sym_kernel mesh_lab (mesh_object OpenMesh) True True (1 / 1000)
           False True (mesh_doc OpenMesh) of
      Inr (doc', Some new) \<Rightarrow>
        new = 1
        \<and> objects_of slots_view doc' = {0, 1}
        \<and> name_of slots_view doc' 0 = ''Mesh''
        \<and> name_of slots_view doc' new = ''Mesh001''
        \<and> name_of slots_view doc' new \<noteq> Name (mesh_object OpenMesh)
        \<and> typeid_of slots_view doc' new = ''Part::Feature''
        \<and> shape_of slots_view doc' new = Some open_shell
    | _ \<Rightarrow> False)"
  by (auto simp add: meshToShape_def lab_open lab_closed_valid slots_api_def slots_view_def
      mesh_doc_def mesh_object_def plain_def name_taken_def)

text \<open>
  Claim C5, amended. The document is taken to behave as follows: \<^verbatim>\<open>removeObject(name)\<close>
  removes the objects of that name and renames none; \<^verbatim>\<open>addObject(type, name)\<close> adds one
  new object of that type, under that name when no object of the document bears it and
  under another name when one does; assigning the shape or the colour of an object
  changes that property only, the colour leaving the shape as it is. The object given is
  in the document under its name. Then: without a \<^verbatim>\<open>Mesh\<close> property, and when
  \<open>getShapeFromMesh\<close> gives no shape, the call returns \<^verbatim>\<open>None\<close> and leaves the document
  as it is; an exception of \<open>getShapeFromMesh\<close> is passed on; when a shape is obtained,
  the call returns a new object of the document, of type \<open>Part::Feature\<close> and holding that
  shape. When the shape is closed and valid, the objects bearing the original name are
  removed, one object is added, and it bears the original object's name. Otherwise every
  object of the document is kept, one object is added, its name is not the original
  object's, and when \<open>mark\<close> is true it is coloured red.
\<close>

theorem meshToShape_document:
  fixes V :: "('d, 'o, 's) doc_view" and D :: "('d, 'o, 's) doc_api"
    and obj :: "('s, 'm) docobj"
  assumes "document_laws V D"
    and "orig \<in> objects_of V doc" and "name_of V doc orig = Name obj"
  shows
    "(Mesh obj = None \<longrightarrow>
        meshToShape D K M obj mark fast tol flat cut' doc = Inr (doc, None))
     \<and> (\<forall>mesh. Mesh obj = Some mesh \<longrightarrow>
          (case getShapeFromMesh K M mesh fast tol flat cut' of
             Inl e \<Rightarrow> meshToShape D K M obj mark fast tol flat cut' doc = Inl e
           | Inr None \<Rightarrow> meshToShape D K M obj mark fast tol flat cut' doc = Inr (doc, None)
           | Inr (Some solid) \<Rightarrow>
               (\<exists>doc' new.
                  meshToShape D K M obj mark fast tol flat cut' doc = Inr (doc', Some new)
                  \<and> new \<in> objects_of V doc'
                  \<and> typeid_of V doc' new = ''Part::Feature''
                  \<and> shape_of V doc' new = Some solid
                  \<and> (if isClosed M solid \<and> isValid M solid
                     then objects_of V doc'
                            = insert new {ob \<in> objects_of V doc. name_of V doc ob \<noteq> Name obj}
                          \<and> name_of V doc' new = Name obj
                     else new \<notin> objects_of V doc
                          \<and> objects_of V doc' = insert new (objects_of V doc)
                          \<and> name_of V doc' new \<noteq> Name obj
                          \<and> (mark \<longrightarrow> color_of V doc' new = Some (1, 0, 0, 1))))))"
proof (intro conjI allI impI)
  assume "Mesh obj = None"
  then show "meshToShape D K M obj mark fast tol flat cut' doc = Inr (doc, None)"
    by (rule meshToShape_nothing(1))
next
  fix mesh assume m: "Mesh obj = Some mesh"
  show "case getShapeFromMesh K M mesh fast tol flat cut' of
          Inl e \<Rightarrow> meshToShape D K M obj mark fast tol flat cut' doc = Inl e
        | Inr None \<Rightarrow> meshToShape D K M obj mark fast tol flat cut' doc = Inr (doc, None)
        | Inr (Some solid) \<Rightarrow>
            (\<exists>doc' new.
               meshToShape D K M obj mark fast tol flat cut' doc = Inr (doc', Some new)
               \<and> new \<in> objects_of V doc'
               \<and> typeid_of V doc' new = ''Part::Feature''
               \<and> shape_of V doc' new = Some solid
               \<and> (if isClosed M solid \<and> isValid M solid
                  then objects_of V doc'
                         = insert new {ob \<in> objects_of V doc. name_of V doc ob \<noteq> Name obj}
                       \<and> name_of V doc' new = Name obj
                  else new \<notin> objects_of V doc
                       \<and> objects_of V doc' = insert new (objects_of V doc)
                       \<and> name_of V doc' new \<noteq> Name obj
                       \<and> (mark \<longrightarrow> color_of V doc' new = Some (1, 0, 0, 1))))"
  proof (cases "getShapeFromMesh K M mesh fast tol flat cut'")
    case (Inl e)
    then show ?thesis using meshToShape_nothing(3) [OF m Inl] by simp
  next
    case (Inr r)
    show ?thesis
    proof (cases r)
      case None
      then show ?thesis using Inr meshToShape_nothing(2) [OF m] by simp
    next
      case (Some solid)
      have g: "getShapeFromMesh K M mesh fast tol flat cut' = Inr (Some solid)"
        using Inr Some by simp
      show ?thesis
      proof (cases "isClosed M solid \<and> isValid M solid")
        case True
        then have c: "isClosed M solid" and v: "isValid M solid" by simp_all
        from meshToShape_replaces [OF assms(1) m g c v, of mark doc]
        show ?thesis using g True by auto
      next
        case False
        from meshToShape_keeps [OF assms(1) assms(2) assms(3) m g False, of mark]
        show ?thesis using g False by auto
      qed
    qed
  qed
qed

theorem meshToShape_document_witness:
  "document_laws slots_view slots_api
   \<and> 0 \<in> objects_of slots_view (mesh_doc ClosedMesh)
   \<and> name_of slots_view (mesh_doc ClosedMesh) 0 = Name (mesh_object ClosedMesh)
   \<and> Mesh (mesh_object ClosedMesh) = Some ClosedMesh
   \<and> getShapeFromMesh sym_kernel mesh_lab ClosedMesh True (1 / 1000) False True
       = Inr (Some closed_solid)
   \<and> isClosed mesh_lab closed_solid \<and> isValid mesh_lab closed_solid
   \<and> (\<exists>doc' new.
        meshToShape slots_api sym_kernel mesh_lab (mesh_object ClosedMesh) True True (1 / 1000)
          False True (mesh_doc ClosedMesh) = Inr (doc', Some new)
        \<and> typeid_of slots_view doc' new = ''Part::Feature''
        \<and> shape_of slots_view doc' new = Some closed_solid
        \<and> objects_of slots_view doc' = {new}
        \<and> name_of slots_view doc' new = ''Mesh'')"
  using meshToShape_document [where V = slots_view and D = slots_api and K = sym_kernel
      and M = mesh_lab and obj = "mesh_object ClosedMesh" and doc = "mesh_doc ClosedMesh"
      and orig = 0 and mark = True and fast = True and tol = "1 / 1000" and flat = False
      and cut' = True, OF slots_laws]
  by (auto simp add: mesh_doc_view lab_closed lab_closed_valid slots_laws)

end
